theory Spec2Isabelle
  imports Complex_Main
begin

section \<open>Shared data model\<close>

text \<open>
  Python strings are modelled as \<^typ>\<open>string\<close>. The only string operation the verified
  code uses is \<open>str.lower()\<close>, applied to hexadecimal addresses (ASCII text), so
  lower-casing is written out for the ASCII letters.
\<close>

definition lower_char :: "char \<Rightarrow> char" where
  "lower_char c =
     (case map_of (zip ''ABCDEFGHIJKLMNOPQRSTUVWXYZ'' ''abcdefghijklmnopqrstuvwxyz'') c of
        Some l \<Rightarrow> l
      | None \<Rightarrow> c)"

definition lower :: "string \<Rightarrow> string" where
  "lower s = map lower_char s"

text \<open>Python's \<open>str\<close> of a non-negative integer, as it appears inside f-strings.\<close>

function str_nat :: "nat \<Rightarrow> string" where
  "str_nat n = (if n < 10 then [''0123456789'' ! n] else str_nat (n div 10) @ [''0123456789'' ! (n mod 10)])"
  by pat_completeness auto
termination
  by (relation "measure id") auto

declare str_nat.simps [simp del]

text \<open>
  The exceptions the verified code can raise. An \<open>assert\<close> without a message raises
  \<open>AssertionError None\<close>; one with a message carries the formatted text.
\<close>

datatype exn =
    AssertionError "string option"
  | OutOfBalance string
  | NoSingleOpenPositionException string
  | CandleSampleUnavailable string
  | AttributeError
  | ValueError
  | ZeroDivisionError
  | RPCError

text \<open>\<open>AssetIdentifier\<close> and \<open>TradingPairIdentifier\<close> (tradeexecutor.state.identifier).\<close>

record AssetIdentifier =
  chain_id :: int
  address :: string
  token_symbol :: string
  decimals :: nat

record TradingPairIdentifier =
  base :: AssetIdentifier
  quote :: AssetIdentifier
  pool_address :: string
  exchange_address :: "string option"
  internal_id :: "nat option"

text \<open>
  Modelled from the spec: \<open>AssetIdentifier.__eq__\<close> is not among the sources. The spec:
  two assets are equal iff chain id and address match (case-insensitive address comparison).
\<close>

definition asset_eq :: "AssetIdentifier \<Rightarrow> AssetIdentifier \<Rightarrow> bool" where
  "asset_eq a b \<longleftrightarrow> chain_id a = chain_id b \<and> lower (address a) = lower (address b)"

text \<open>
  \<open>Web3.toChecksumAddress\<close> is library code: it normalises the address to lower case and
  then re-cases its hexadecimal digits from the Keccak hash of the normalised text (EIP-55).
  The hash-driven casing is the parameter \<open>eip_case\<close>; the normalisation is written out.
  Addresses are taken to be well-formed hexadecimal addresses: the \<open>ValueError\<close> the
  library raises on other text is not modelled.
\<close>

definition toChecksumAddress :: "(string \<Rightarrow> string) \<Rightarrow> string \<Rightarrow> string" where
  "toChecksumAddress eip_case a = eip_case (lower a)"

section \<open>routing_state.py\<close>

subsection \<open>validate_pairs\<close>

text \<open>
  Python truthiness of an optional string: \<open>None\<close> and the empty string are falsy.
\<close>

definition truthy_str :: "string option \<Rightarrow> bool" where
  "truthy_str v = (case v of None \<Rightarrow> False | Some s \<Rightarrow> s \<noteq> [])"

text \<open>
  The parameter \<open>str_pair\<close> is the text a pair is formatted to inside an f-string
  (\<open>TradingPairIdentifier.__str__\<close>).
\<close>

definition validate_pairs ::
  "(TradingPairIdentifier \<Rightarrow> string) \<Rightarrow> TradingPairIdentifier \<Rightarrow> TradingPairIdentifier
     \<Rightarrow> exn + unit" where
  "validate_pairs str_pair target_pair intermediary_pair =
     (if \<not> asset_eq (base intermediary_pair) (quote target_pair) then
        Inl (AssertionError (Some (''Could not hop from intermediary '' @ str_pair intermediary_pair
               @ '' -> destination '' @ str_pair target_pair)))
      else if \<not> truthy_str (exchange_address target_pair) then
        Inl (AssertionError (Some (''Target pair '' @ str_pair target_pair
               @ '' missing exchange information'')))
      else if \<not> truthy_str (exchange_address intermediary_pair) then
        Inl (AssertionError (Some (''Intermediary pair '' @ str_pair intermediary_pair
               @ '' missing exchange information'')))
      else if lower (the (exchange_address intermediary_pair))
                \<noteq> lower (the (exchange_address target_pair)) then
        Inl (AssertionError None)
      else Inr ())"

subsection \<open>route_tokens\<close>

definition route_tokens ::
  "(string \<Rightarrow> string) \<Rightarrow> TradingPairIdentifier \<Rightarrow> TradingPairIdentifier option
     \<Rightarrow> string \<times> string \<times> string option" where
  "route_tokens eip_case trading_pair intermediate_pair =
     (case intermediate_pair of
        None \<Rightarrow>
          (toChecksumAddress eip_case (address (base trading_pair)),
           toChecksumAddress eip_case (address (quote trading_pair)),
           None)
      | Some ip \<Rightarrow>
          (toChecksumAddress eip_case (address (base trading_pair)),
           toChecksumAddress eip_case (address (quote ip)),
           Some (toChecksumAddress eip_case (address (quote trading_pair)))))"

subsection \<open>The chain and the transaction builder\<close>

text \<open>
  The blockchain is read through contract calls. A read either returns a value or raises
  (the node is unreachable, the address holds no ERC-20 contract); a raising read is
  \<open>None\<close> and surfaces as \<open>RPCError\<close>. Contracts are identified by their address:
  \<open>allowance chain token owner spender\<close> and \<open>balanceOf chain token owner\<close> are the
  ERC-20 reads, whose results are unsigned integers.
\<close>

record TokenDetails =
  td_address :: string
  td_symbol :: string
  td_decimals :: nat

record Chain =
  allowance :: "string \<Rightarrow> string \<Rightarrow> string \<Rightarrow> nat option"
  balanceOf :: "string \<Rightarrow> string \<Rightarrow> nat option"
  fetch_erc20_details :: "string \<Rightarrow> TokenDetails"

text \<open>
  \<open>TokenDetails.convert_to_decimals\<close> (library code): the raw integer amount divided by
  ten to the power of the token's decimals.
\<close>

definition convert_to_decimals :: "TokenDetails \<Rightarrow> int \<Rightarrow> rat" where
  "convert_to_decimals token_details raw_amount = of_int raw_amount / 10 ^ td_decimals token_details"

datatype arg = ArgAddress string | ArgUint nat

record BlockchainTransaction =
  tx_contract_address :: string
  tx_function :: string
  tx_args :: "arg list"
  tx_gas_limit :: nat

record HotWallet =
  hw_address :: string

text \<open>A connection to a node.\<close>

record Web3 =
  web3_endpoint :: string

record TransactionBuilder =
  hot_wallet :: HotWallet
  tb_web3 :: Web3

text \<open>
  \<open>get_deployed_contract\<close> is library code: it builds the proxy of the contract at an
  address through the connection, and raises when there is no connection to build it
  through.
\<close>

definition get_deployed_contract :: "Web3 option \<Rightarrow> string \<Rightarrow> exn + string" where
  "get_deployed_contract web3 contract_address =
     (case web3 of None \<Rightarrow> Inl AttributeError | Some w \<Rightarrow> Inr contract_address)"

text \<open>
  Modelled from the spec: \<open>TransactionBuilder.create_transaction\<close> is not among the sources.
  The spec: given a target contract reference, a named operation, argument tuple, and a gas
  budget, returns a transaction descriptor.
\<close>

definition create_transaction ::
  "TransactionBuilder \<Rightarrow> string \<Rightarrow> string \<Rightarrow> arg list \<Rightarrow> nat \<Rightarrow> BlockchainTransaction" where
  "create_transaction tb contract function_name args gas_limit =
     \<lparr>tx_contract_address = contract, tx_function = function_name, tx_args = args,
      tx_gas_limit = gas_limit\<rparr>"

subsection \<open>EthereumRoutingState\<close>

record EthereumRoutingState =
  rs_tx_builder :: "TransactionBuilder option"
  rs_hot_wallet :: "HotWallet option"
  rs_web3 :: "Web3 option"
  approved_routes :: "string \<rightharpoonup> string set"
  swap_gas_limit :: nat

text \<open>
  \<open>__init__(pair_universe, tx_builder, swap_gas_limit, web3)\<close>: with a builder, the wallet
  and the connection are the builder's; without one there is no wallet and the connection
  is the \<open>web3\<close> argument, which may be absent too. No routes are approved. The pair
  universe it stores is read by none of the methods below.
\<close>

definition init_routing_state ::
  "TransactionBuilder option \<Rightarrow> nat \<Rightarrow> Web3 option \<Rightarrow> EthereumRoutingState" where
  "init_routing_state tx_builder gas web3 =
     (case tx_builder of
        Some tb \<Rightarrow> \<lparr>rs_tx_builder = Some tb, rs_hot_wallet = Some (hot_wallet tb),
                    rs_web3 = Some (tb_web3 tb), approved_routes = Map.empty,
                    swap_gas_limit = gas\<rparr>
      | None \<Rightarrow> \<lparr>rs_tx_builder = None, rs_hot_wallet = None, rs_web3 = web3,
                  approved_routes = Map.empty, swap_gas_limit = gas\<rparr>)"

text \<open>
  \<open>approved_routes\<close> is a \<open>defaultdict(set)\<close>: reading a missing key stores the empty
  set under it and returns it.
\<close>

definition defaultdict_get ::
  "(string \<rightharpoonup> string set) \<Rightarrow> string \<Rightarrow> string set \<times> (string \<rightharpoonup> string set)" where
  "defaultdict_get m k = (case m k of None \<Rightarrow> ({}, m(k \<mapsto> {})) | Some s \<Rightarrow> (s, m))"

definition is_route_approved :: "EthereumRoutingState \<Rightarrow> string \<Rightarrow> bool" where
  "is_route_approved st router_address \<longleftrightarrow> router_address \<in> dom (approved_routes st)"

definition mark_router_approved ::
  "string \<Rightarrow> string \<Rightarrow> EthereumRoutingState \<Rightarrow> EthereumRoutingState" where
  "mark_router_approved token_address router_address st =
     (let (tokens, m) = defaultdict_get (approved_routes st) router_address
      in st\<lparr>approved_routes := m(router_address \<mapsto> insert token_address tokens)\<rparr>)"

text \<open>
  \<open>check_has_enough_tokens\<close>. The parameters \<open>str_details\<close> and \<open>str_decimal\<close> are the
  texts a \<open>TokenDetails\<close> and a \<open>Decimal\<close> are formatted to inside the f-string.
  The method returns no value and writes no attribute; the state is returned to say so.
\<close>

definition check_has_enough_tokens ::
  "(TokenDetails \<Rightarrow> string) \<Rightarrow> (rat \<Rightarrow> string) \<Rightarrow> Chain \<Rightarrow> EthereumRoutingState
     \<Rightarrow> string \<Rightarrow> int \<Rightarrow> (exn + unit) \<times> EthereumRoutingState" where
  "check_has_enough_tokens str_details str_decimal chain st erc_20 amount =
     (case rs_hot_wallet st of
        None \<Rightarrow> (Inl AttributeError, st)
      | Some hw \<Rightarrow>
          (case balanceOf chain erc_20 (hw_address hw) of
             None \<Rightarrow> (Inl RPCError, st)
           | Some balance \<Rightarrow>
               if int balance < amount then
                 (let token_details = fetch_erc20_details chain erc_20;
                      d_balance = convert_to_decimals token_details (int balance);
                      d_amount = convert_to_decimals token_details amount
                  in (Inl (OutOfBalance (''Address '' @ hw_address hw @ '' does not have enough ''
                            @ str_details token_details @ '' tokens to trade. Need ''
                            @ str_decimal d_amount @ '', has '' @ str_decimal d_balance)), st))
               else (Inr (), st)))"

text \<open>
  \<open>ensure_token_approved\<close>. The state in the result is the state the call leaves behind,
  also when it raises. The contract is resolved before the cache is marked:
  \<open>Web3.toChecksumAddress\<close> raises \<open>ValueError\<close> on text it does not accept as an address
  (the parameter \<open>accepts\<close> is the library's test), and \<open>get_deployed_contract\<close> raises
  without a connection. The builder is read after the marking.
\<close>

definition ensure_token_approved ::
  "(string \<Rightarrow> bool) \<Rightarrow> (string \<Rightarrow> string) \<Rightarrow> Chain \<Rightarrow> EthereumRoutingState \<Rightarrow> string \<Rightarrow> string
     \<Rightarrow> (exn + BlockchainTransaction list) \<times> EthereumRoutingState" where
  "ensure_token_approved accepts eip_case chain st token_address router_address =
     (let (tokens, m) = defaultdict_get (approved_routes st) router_address;
          st0 = st\<lparr>approved_routes := m\<rparr>
      in if token_address \<in> tokens then (Inr [], st0)
         else if \<not> accepts token_address then (Inl ValueError, st0)
         else
           (case get_deployed_contract (rs_web3 st0)
                   (toChecksumAddress eip_case token_address) of
              Inl e \<Rightarrow> (Inl e, st0)
            | Inr erc_20 \<Rightarrow>
                (let st1 = mark_router_approved token_address router_address st0
                 in case rs_tx_builder st1 of
                      None \<Rightarrow> (Inl AttributeError, st1)
                    | Some tb \<Rightarrow>
                        (case allowance chain erc_20 (hw_address (hot_wallet tb))
                                router_address of
                           None \<Rightarrow> (Inl RPCError, st1)
                         | Some a \<Rightarrow>
                             if a > 0 then (Inr [], st1)
                             else
                               (Inr [create_transaction tb erc_20 ''approve''
                                       [ArgAddress router_address, ArgUint (2 ^ 256 - 1)]
                                       100000],
                                st1)))))"

text \<open>Whether the in-memory cache holds an entry for this router and token.\<close>

definition cached :: "EthereumRoutingState \<Rightarrow> string \<Rightarrow> string \<Rightarrow> bool" where
  "cached st router_address token_address =
     (case approved_routes st router_address of None \<Rightarrow> False | Some s \<Rightarrow> token_address \<in> s)"

text \<open>
  Whether the call gets as far as the contract proxy: the token address is accepted and
  the state holds a connection.
\<close>

definition resolves :: "(string \<Rightarrow> bool) \<Rightarrow> EthereumRoutingState \<Rightarrow> string \<Rightarrow> bool" where
  "resolves accepts st token_address =
     (accepts token_address \<and> (case rs_web3 st of None \<Rightarrow> False | Some w \<Rightarrow> True))"

text \<open>The transactions a call issued: none when it raised.\<close>

definition issued :: "exn + BlockchainTransaction list \<Rightarrow> BlockchainTransaction list" where
  "issued r = (case r of Inl e \<Rightarrow> [] | Inr txs \<Rightarrow> txs)"

section \<open>position_manager.py\<close>

text \<open>
  Python floats and \<open>Decimal\<close>s are both modelled as rationals: every float and every
  decimal is a rational number, \<open>Decimal(x)\<close> of a float is exact, and the comparisons
  and the truthiness test (\<open>x != 0\<close>) the code performs are those of the numbers. The
  rounding of float arithmetic is not modelled.
\<close>

definition truthy_num :: "rat option \<Rightarrow> bool" where
  "truthy_num v = (case v of None \<Rightarrow> False | Some x \<Rightarrow> x \<noteq> 0)"

subsection \<open>The ledger\<close>

datatype TradeType = rebalance | stop_loss_trade | take_profit_trade

record TradeExecution =
  trade_id :: nat
  te_position_id :: nat
  te_pair :: TradingPairIdentifier
  te_opened_at :: int
  planned_quantity :: rat
  planned_price :: rat
  planned_mid_price :: "rat option"
  trade_type :: TradeType
  te_reserve_currency :: AssetIdentifier
  te_reserve_currency_price :: rat
  te_notes :: "string option"
  te_pair_fee :: "rat option"
  lp_fees_estimated :: "rat option"

record TradingPosition =
  position_id :: nat
  tp_pair :: TradingPairIdentifier
  trades :: "TradeExecution list"
  stop_loss :: "rat option"
  take_profit :: "rat option"
  tp_notes :: "string option"
  tp_opened_at :: int

text \<open>
  \<open>open_positions\<close> is a dictionary from position id to position; each position carries
  its id, so the dictionary is the list of its values in insertion order.
\<close>

record Portfolio =
  next_position_id :: nat
  next_trade_id :: nat
  open_positions :: "TradingPosition list"
  closed_positions :: "TradingPosition list"
  reserve_currency :: AssetIdentifier
  reserve_price :: rat

record State =
  portfolio :: Portfolio
  visualisation_messages :: "(int \<times> string) list"

text \<open>
  The methods of \<open>TradingPosition\<close> that the position manager calls are not among the
  sources. They are parameters: every result below holds for any implementation of them.
\<close>

record PositionMethods =
  is_long :: "TradingPosition \<Rightarrow> bool"
  is_open :: "TradingPosition \<Rightarrow> bool"
  get_quantity :: "TradingPosition \<Rightarrow> rat"
  get_live_quantity :: "TradingPosition \<Rightarrow> rat"
  get_current_price :: "TradingPosition \<Rightarrow> rat"

text \<open>The pricing collaborator: a quote, or the exception the call raises.\<close>

record TradePricing =
  price :: rat
  mid_price :: rat
  lp_fee :: "rat option"
  pair_fee :: "rat option"

record PricingModel =
  get_buy_price :: "int \<Rightarrow> TradingPairIdentifier \<Rightarrow> rat \<Rightarrow> exn + TradePricing"
  get_sell_price :: "int \<Rightarrow> TradingPairIdentifier \<Rightarrow> rat \<Rightarrow> exn + TradePricing"

text \<open>The texts that values are formatted to inside f-strings.\<close>

record Formats =
  fmt_pair :: "TradingPairIdentifier \<Rightarrow> string"
  fmt_number :: "rat \<Rightarrow> string"
  fmt_timestamp :: "int \<Rightarrow> string"
  fmt_position :: "TradingPosition \<Rightarrow> string"

text \<open>
  Modelled from the spec: \<open>Portfolio.get_default_reserve_currency\<close> is not among the
  sources. The spec: the portfolio holds the designated reserve currency and its last known
  price.
\<close>

definition get_default_reserve_currency :: "Portfolio \<Rightarrow> AssetIdentifier \<times> rat" where
  "get_default_reserve_currency pf = (reserve_currency pf, reserve_price pf)"

text \<open>
  Modelled from the spec: the equality of \<open>TradingPairIdentifier\<close> is not among the
  sources. The spec: the only durable identity is (chain id, pool contract address).
\<close>

definition pair_identity :: "TradingPairIdentifier \<Rightarrow> int \<times> string" where
  "pair_identity p = (chain_id (base p), pool_address p)"

text \<open>
  Modelled from the spec: \<open>Portfolio.get_position_by_trading_pair\<close> is not among the
  sources. The spec: the portfolio maps a pair identity to the open position on that pair
  (at most one open position per pair at a time).
\<close>

definition get_position_by_trading_pair ::
  "Portfolio \<Rightarrow> TradingPairIdentifier \<Rightarrow> TradingPosition option" where
  "get_position_by_trading_pair pf pair =
     find (\<lambda>p. pair_identity (tp_pair p) = pair_identity pair) (open_positions pf)"

text \<open>
  A position is a mutable object held by the portfolio. Writing one of its attributes
  through a reference is an update of the portfolio's entry with that position's id.
\<close>

definition update_position ::
  "nat \<Rightarrow> (TradingPosition \<Rightarrow> TradingPosition) \<Rightarrow> State \<Rightarrow> State" where
  "update_position pid f st =
     st\<lparr>portfolio := (portfolio st)\<lparr>open_positions :=
           map (\<lambda>p. if position_id p = pid then f p else p) (open_positions (portfolio st))\<rparr>\<rparr>"

text \<open>
  Modelled from the spec: \<open>State.create_trade\<close> is not among the sources. The spec: exactly
  one of quantity or reserve must be provided, quantity for sells (signed, negative means
  reducing the position) or direct-quantity buys, reserve for buys sized in reserve-currency
  terms (converted to quantity via the assumed price). It returns (position, trade, created):
  created is true only if this trade opened a brand-new position (no open position for that
  pair existed at call time); otherwise the trade is appended to the existing open position.
  A failing call leaves no mutation behind.
\<close>

definition create_trade ::
  "int \<Rightarrow> TradingPairIdentifier \<Rightarrow> rat option \<Rightarrow> rat option \<Rightarrow> rat \<Rightarrow> TradeType
     \<Rightarrow> AssetIdentifier \<Rightarrow> rat \<Rightarrow> string option \<Rightarrow> rat option \<Rightarrow> rat option \<Rightarrow> rat option
     \<Rightarrow> State \<Rightarrow> exn + (TradingPosition \<times> TradeExecution \<times> bool) \<times> State" where
  "create_trade ts pair quantity reserve assumed_price tt reserve_ccy reserve_ccy_price notes
       pair_fee' lp_fees planned_mid st =
     (let pf = portfolio st;
          planned =
            (case (quantity, reserve) of
               (Some q, None) \<Rightarrow> Inr q
             | (None, Some r) \<Rightarrow>
                 if assumed_price = 0 then Inl ZeroDivisionError else Inr (r / assumed_price)
             | _ \<Rightarrow> Inl (AssertionError None))
      in case planned of
           Inl e \<Rightarrow> Inl e
         | Inr q \<Rightarrow>
             (let existing = get_position_by_trading_pair pf pair;
                  pid = (case existing of Some pos \<Rightarrow> position_id pos | None \<Rightarrow> next_position_id pf);
                  trade = \<lparr>trade_id = next_trade_id pf, te_position_id = pid, te_pair = pair,
                           te_opened_at = ts, planned_quantity = q, planned_price = assumed_price,
                           planned_mid_price = planned_mid, trade_type = tt,
                           te_reserve_currency = reserve_ccy,
                           te_reserve_currency_price = reserve_ccy_price, te_notes = notes,
                           te_pair_fee = pair_fee', lp_fees_estimated = lp_fees\<rparr>
              in case existing of
                   Some pos \<Rightarrow>
                     (let pos' = pos\<lparr>trades := trades pos @ [trade]\<rparr>;
                          st' = update_position pid (\<lambda>p. p\<lparr>trades := trades p @ [trade]\<rparr>) st
                      in Inr ((pos', trade, False),
                              st'\<lparr>portfolio := (portfolio st')\<lparr>next_trade_id := Suc (next_trade_id pf)\<rparr>\<rparr>))
                 | None \<Rightarrow>
                     (let pos' = \<lparr>position_id = pid, tp_pair = pair, trades = [trade],
                                  stop_loss = None, take_profit = None, tp_notes = None,
                                  tp_opened_at = ts\<rparr>
                      in Inr ((pos', trade, True),
                              st\<lparr>portfolio := pf\<lparr>open_positions := open_positions pf @ [pos'],
                                     next_position_id := Suc (next_position_id pf),
                                     next_trade_id := Suc (next_trade_id pf)\<rparr>\<rparr>))))"

subsection \<open>PositionManager\<close>

text \<open>
  The manager's own attributes; the pricing model it holds is passed as the parameter
  \<open>pricing\<close>.
\<close>

record PositionManager =
  timestamp :: int
  state :: State
  pm_reserve_currency :: AssetIdentifier

definition is_any_open :: "PositionManager \<Rightarrow> bool" where
  "is_any_open pm \<longleftrightarrow> length (open_positions (portfolio (state pm))) > 0"

definition get_current_position ::
  "Formats \<Rightarrow> PositionManager \<Rightarrow> (exn + TradingPosition) \<times> PositionManager" where
  "get_current_position fmt pm =
     (let ops = open_positions (portfolio (state pm))
      in if length ops = 0 then
           (Inl (NoSingleOpenPositionException
                  (''No positions open at '' @ fmt_timestamp fmt (timestamp pm))), pm)
         else if length ops > 1 then
           (Inl (NoSingleOpenPositionException
                  (''Multiple positions ('' @ str_nat (length ops) @ '') open at ''
                     @ fmt_timestamp fmt (timestamp pm))), pm)
         else (Inr (hd ops), pm))"

text \<open>
  \<open>open_1x_long\<close>. The pair is taken as a \<open>TradingPairIdentifier\<close> (the translation of a
  \<open>DEXPair\<close> is library code), and \<open>Decimal(value)\<close> is the identity on the number. The
  manager in the result is the one the call leaves behind, also when it raises.
\<close>

definition set_notes :: "nat \<Rightarrow> nat \<Rightarrow> string \<Rightarrow> State \<Rightarrow> State" where
  "set_notes pid tid notes st =
     update_position pid
       (\<lambda>p. p\<lparr>tp_notes := Some notes,
               trades := map (\<lambda>t. if trade_id t = tid then t\<lparr>te_notes := Some notes\<rparr> else t)
                           (trades p)\<rparr>) st"

definition open_1x_long ::
  "Formats \<Rightarrow> PricingModel \<Rightarrow> PositionManager \<Rightarrow> TradingPairIdentifier \<Rightarrow> rat
     \<Rightarrow> rat option \<Rightarrow> rat option \<Rightarrow> string option
     \<Rightarrow> (exn + TradeExecution list) \<times> PositionManager" where
  "open_1x_long fmt pricing pm pair val take_profit_pct stop_loss_pct notes =
     (case get_buy_price pricing (timestamp pm) pair val of
        Inl e \<Rightarrow> (Inl e, pm)
      | Inr price_structure \<Rightarrow>
          (let (reserve_asset, reserve_price') =
                 get_default_reserve_currency (portfolio (state pm))
           in case create_trade (timestamp pm) pair None (Some val) (price price_structure)
                     rebalance (pm_reserve_currency pm) reserve_price' None
                     (pair_fee price_structure) (lp_fee price_structure)
                     (Some (mid_price price_structure)) (state pm) of
                Inl e \<Rightarrow> (Inl e, pm)
              | Inr ((position, trade, created), st1) \<Rightarrow>
                  if \<not> created then
                    (Inl (AssertionError (Some (''There was conflicting open position for pair: ''
                            @ fmt_pair fmt pair))),
                     pm\<lparr>state := st1\<rparr>)
                  else
                    (let pid = position_id position;
                         st2 = (if truthy_num take_profit_pct then
                                  update_position pid
                                    (\<lambda>p. p\<lparr>take_profit :=
                                       Some (mid_price price_structure * the take_profit_pct)\<rparr>) st1
                                else st1);
                         st3 = (if truthy_num stop_loss_pct then
                                  update_position pid
                                    (\<lambda>p. p\<lparr>stop_loss :=
                                       Some (mid_price price_structure * the stop_loss_pct)\<rparr>) st2
                                else st2);
                         st4 = (if truthy_str notes then
                                  set_notes pid (trade_id trade) (the notes) st3
                                else st3);
                         trade' = (if truthy_str notes then trade\<lparr>te_notes := notes\<rparr> else trade);
                         st5 = st4\<lparr>visualisation_messages := visualisation_messages st4 @
                                 [(timestamp pm, ''Opened 1x long on '' @ fmt_pair fmt pair
                                     @ '', position value '' @ fmt_number fmt val @ '' USD'')]\<rparr>
                     in (Inr [trade'], pm\<lparr>state := st5\<rparr>))))"

text \<open>
  \<open>adjust_position\<close>, in two steps: the trade (the assertions on the arguments, the quote
  and the buy or sell branch), then the risk levels.
\<close>

definition adjust_position_trade ::
  "Formats \<Rightarrow> PositionMethods \<Rightarrow> PositionManager \<Rightarrow> TradingPairIdentifier \<Rightarrow> rat \<Rightarrow> rat
     \<Rightarrow> TradePricing \<Rightarrow> exn + (TradingPosition \<times> TradeExecution \<times> bool) \<times> State" where
  "adjust_position_trade fmt methods pm pair dollar_amount_delta weight price_structure =
     (let (reserve_asset, reserve_price') =
            get_default_reserve_currency (portfolio (state pm))
      in if dollar_amount_delta > 0 then
           create_trade (timestamp pm) pair None (Some dollar_amount_delta)
             (price price_structure) rebalance (pm_reserve_currency pm) reserve_price' None
             None None (Some (mid_price price_structure)) (state pm)
         else
           (case get_position_by_trading_pair (portfolio (state pm)) pair of
              None \<Rightarrow>
                Inl (AssertionError (Some (''Assumed '' @ fmt_pair fmt pair
                       @ '' has open position because of attempt sell at ''
                       @ fmt_number fmt dollar_amount_delta @ '' USD adjust'')))
            | Some position \<Rightarrow>
                (let assumed_price = get_current_price methods position;
                     quantity_delta =
                       (if weight \<noteq> 0 then
                          (if assumed_price = 0 then Inl ZeroDivisionError
                           else if \<not> dollar_amount_delta / assumed_price < 0 then
                             Inl (AssertionError None)
                           else Inr (dollar_amount_delta / assumed_price))
                        else Inr (- get_quantity methods position))
                 in case quantity_delta of
                      Inl e \<Rightarrow> Inl e
                    | Inr q \<Rightarrow>
                        create_trade (timestamp pm) pair (Some q) None assumed_price rebalance
                          (pm_reserve_currency pm) reserve_price' None None None
                          (Some (mid_price price_structure)) (state pm))))"

definition adjust_position_levels ::
  "Formats \<Rightarrow> nat \<Rightarrow> TradePricing \<Rightarrow> rat option \<Rightarrow> rat option \<Rightarrow> State
     \<Rightarrow> (exn + unit) \<times> State" where
  "adjust_position_levels fmt pid price_structure stop_loss' take_profit' st1 =
     (if truthy_num stop_loss' \<and> \<not> the stop_loss' < 1 then
        (Inl (AssertionError (Some (''Got stop loss '' @ fmt_number fmt (the stop_loss')))), st1)
      else
        (let st2 = (if truthy_num stop_loss' then
                      update_position pid
                        (\<lambda>p. p\<lparr>stop_loss := Some (mid_price price_structure * the stop_loss')\<rparr>)
                        st1
                    else st1)
         in if truthy_num take_profit' \<and> \<not> the take_profit' > 1 then
              (Inl (AssertionError (Some (''Got take profit ''
                      @ fmt_number fmt (the take_profit')))), st2)
            else
              (Inr (),
               if truthy_num take_profit' then
                 update_position pid
                   (\<lambda>p. p\<lparr>take_profit := Some (mid_price price_structure * the take_profit')\<rparr>)
                   st2
               else st2)))"

definition adjust_position ::
  "Formats \<Rightarrow> PositionMethods \<Rightarrow> PricingModel \<Rightarrow> PositionManager \<Rightarrow> TradingPairIdentifier
     \<Rightarrow> rat \<Rightarrow> rat \<Rightarrow> rat option \<Rightarrow> rat option
     \<Rightarrow> (exn + TradeExecution list) \<times> PositionManager" where
  "adjust_position fmt methods pricing pm pair dollar_amount_delta weight stop_loss' take_profit' =
     (if \<not> dollar_amount_delta \<noteq> 0 then (Inl (AssertionError None), pm)
      else if \<not> weight \<le> 1 then
        (Inl (AssertionError (Some (''Target weight cannot be over one: ''
                @ fmt_number fmt weight))), pm)
      else if \<not> weight \<ge> 0 then
        (Inl (AssertionError (Some (''Target weight cannot be negative: ''
                @ fmt_number fmt weight))), pm)
      else
        (case get_buy_price pricing (timestamp pm) pair dollar_amount_delta of
           Inl (CandleSampleUnavailable m) \<Rightarrow>
             (Inl (CandleSampleUnavailable (''Could not fetch price for '' @ fmt_pair fmt pair)), pm)
         | Inl e \<Rightarrow> (Inl e, pm)
         | Inr price_structure \<Rightarrow>
             (case adjust_position_trade fmt methods pm pair dollar_amount_delta weight
                     price_structure of
                Inl e \<Rightarrow> (Inl e, pm)
              | Inr ((position, trade, created), st1) \<Rightarrow>
                  (case adjust_position_levels fmt (position_id position) price_structure
                          stop_loss' take_profit' st1 of
                     (Inl e, st2) \<Rightarrow> (Inl e, pm\<lparr>state := st2\<rparr>)
                   | (Inr u, st2) \<Rightarrow> (Inr [trade], pm\<lparr>state := st2\<rparr>)))))"

text \<open>
  \<open>close_position\<close> returns \<open>None\<close>, a trade or a list of trades. The warning written to the
  log on the first branch is outside the state. \<open>position == position2\<close> compares the
  references by the position id.
\<close>

datatype close_result = NoTrade | OneTrade TradeExecution | TradeList "TradeExecution list"

definition close_position ::
  "Formats \<Rightarrow> PositionMethods \<Rightarrow> PricingModel \<Rightarrow> PositionManager \<Rightarrow> TradingPosition
     \<Rightarrow> TradeType \<Rightarrow> string option \<Rightarrow> bool \<Rightarrow> (exn + close_result) \<times> PositionManager" where
  "close_position fmt methods pricing pm position tt notes trades_as_list =
     (if \<not> is_long methods position then
        (Inl (AssertionError (Some ''Only long supported for now'')), pm)
      else if \<not> is_open methods position then
        (Inl (AssertionError (Some (''Tried to close already closed position ''
                @ fmt_position fmt position))), pm)
      else
        (let quantity_left = get_live_quantity methods position
         in if quantity_left = 0 then (Inr NoTrade, pm)
            else
              (let pair = tp_pair position; quantity = quantity_left
               in case get_sell_price pricing (timestamp pm) pair quantity of
                    Inl e \<Rightarrow> (Inl e, pm)
                  | Inr price_structure \<Rightarrow>
                      (let (reserve_asset, reserve_price') =
                             get_default_reserve_currency (portfolio (state pm))
                       in case create_trade (timestamp pm) pair (Some (- quantity)) None
                                 (price price_structure) tt reserve_asset reserve_price' notes
                                 (pair_fee price_structure) (lp_fee price_structure)
                                 (Some (mid_price price_structure)) (state pm) of
                            Inl e \<Rightarrow> (Inl e, pm)
                          | Inr ((position2, trade, created), st1) \<Rightarrow>
                              if position_id position \<noteq> position_id position2 then
                                (Inl (AssertionError (Some ''Somehow messed up the trade'')),
                                 pm\<lparr>state := st1\<rparr>)
                              else if trades_as_list then
                                (Inr (TradeList [trade]), pm\<lparr>state := st1\<rparr>)
                              else (Inr (OneTrade trade), pm\<lparr>state := st1\<rparr>)))))"

text \<open>The number of trades the ledger holds on open positions.\<close>

definition trade_count :: "State \<Rightarrow> nat" where
  "trade_count st = sum_list (map (\<lambda>p. length (trades p)) (open_positions (portfolio st)))"

text \<open>The risk levels the ledger holds: position id, stop loss, take profit.\<close>

definition risk_levels :: "State \<Rightarrow> (nat \<times> rat option \<times> rat option) list" where
  "risk_levels st =
     map (\<lambda>p. (position_id p, stop_loss p, take_profit p)) (open_positions (portfolio st))"

definition take_profit_levels :: "State \<Rightarrow> (nat \<times> rat option) list" where
  "take_profit_levels st =
     map (\<lambda>p. (position_id p, take_profit p)) (open_positions (portfolio st))"

section \<open>Sample data\<close>

definition busd :: AssetIdentifier where
  "busd = \<lparr>chain_id = 56, address = ''0xe9e7cea3dedca5984780bafc599bd69add087d56'',
           token_symbol = ''BUSD'', decimals = 18\<rparr>"

definition wbnb :: AssetIdentifier where
  "wbnb = \<lparr>chain_id = 56, address = ''0xbb4cdb9cbd36b01bd1cbaebf2de08d9173bc095c'',
           token_symbol = ''WBNB'', decimals = 18\<rparr>"

definition cake :: AssetIdentifier where
  "cake = \<lparr>chain_id = 56, address = ''0x0e09fabb73bd3ade0a17ecc321fd13a19e81ce82'',
           token_symbol = ''Cake'', decimals = 18\<rparr>"

definition pancake_factory :: string where
  "pancake_factory = ''0xcA143Ce32Fe78f1f7019d7d551a6402fC5350c73''"

definition cake_wbnb :: TradingPairIdentifier where
  "cake_wbnb = \<lparr>base = cake, quote = wbnb,
     pool_address = ''0x0ed7e52944161450477ee417de9cd3a859b14fd0'',
     exchange_address = Some pancake_factory, internal_id = Some 1\<rparr>"

definition wbnb_busd :: TradingPairIdentifier where
  "wbnb_busd = \<lparr>base = wbnb, quote = busd,
     pool_address = ''0x58f876857a02d6762e0101bb5c46a8c1ed44dc16'',
     exchange_address = Some (lower pancake_factory), internal_id = Some 2\<rparr>"

definition sym_of :: "TradingPairIdentifier \<Rightarrow> string" where
  "sym_of p = token_symbol (base p) @ ''-'' @ token_symbol (quote p)"

definition wbnb_busd_elsewhere :: TradingPairIdentifier where
  "wbnb_busd_elsewhere = wbnb_busd\<lparr>exchange_address := Some ''0x01''\<rparr>"

definition wbnb_busd_no_exchange :: TradingPairIdentifier where
  "wbnb_busd_no_exchange = wbnb_busd\<lparr>exchange_address := None\<rparr>"

definition cake_wbnb_no_exchange :: TradingPairIdentifier where
  "cake_wbnb_no_exchange = cake_wbnb\<lparr>exchange_address := Some []\<rparr>"

definition pancake_router :: string where
  "pancake_router = ''0x10ED43C718714eb63d5aA57B78B54704E256024E''"

definition deployer :: HotWallet where
  "deployer = \<lparr>hw_address = ''0x70997970C51812dc3A010C7d01b50e0d17dc79C8''\<rparr>"

definition builder :: TransactionBuilder where
  "builder = \<lparr>hot_wallet = deployer, tb_web3 = \<lparr>web3_endpoint = ''http://localhost:8545''\<rparr>\<rparr>"

definition fresh_routing_state :: EthereumRoutingState where
  "fresh_routing_state = init_routing_state (Some builder) 2000000 None"

text \<open>The state built with the default arguments: no builder and no connection.\<close>

definition unconnected_routing_state :: EthereumRoutingState where
  "unconnected_routing_state = init_routing_state None 2000000 None"

text \<open>An acceptance test for address text: \<open>0x\<close> and forty more characters.\<close>

definition forty_after_0x :: "string \<Rightarrow> bool" where
  "forty_after_0x a \<longleftrightarrow> take 2 a = ''0x'' \<and> length a = 42"

text \<open>A chain where nothing is approved and the wallet holds 500 raw units of every token.\<close>

definition quiet_chain :: Chain where
  "quiet_chain = \<lparr>allowance = (\<lambda>token owner spender. Some 0),
     balanceOf = (\<lambda>token owner. Some 500),
     fetch_erc20_details = (\<lambda>token. \<lparr>td_address = token, td_symbol = ''BUSD'', td_decimals = 2\<rparr>)\<rparr>"

text \<open>A chain whose reads all raise.\<close>

definition unreachable_chain :: Chain where
  "unreachable_chain = \<lparr>allowance = (\<lambda>token owner spender. None),
     balanceOf = (\<lambda>token owner. None),
     fetch_erc20_details = (\<lambda>token. \<lparr>td_address = token, td_symbol = ''BUSD'', td_decimals = 2\<rparr>)\<rparr>"

definition approve_busd :: BlockchainTransaction where
  "approve_busd = \<lparr>tx_contract_address = address busd, tx_function = ''approve'',
     tx_args = [ArgAddress pancake_router, ArgUint (2 ^ 256 - 1)], tx_gas_limit = 100000\<rparr>"

text \<open>A formatter that prints the whole units of a non-negative decimal.\<close>

definition whole_units :: "rat \<Rightarrow> string" where
  "whole_units q = str_nat (nat \<lfloor>q\<rfloor>)"

definition sample_formats :: Formats where
  "sample_formats = \<lparr>fmt_pair = sym_of, fmt_number = whole_units,
     fmt_timestamp = (\<lambda>t. str_nat (nat t)), fmt_position = (\<lambda>p. str_nat (position_id p))\<rparr>"

text \<open>A pricing model that quotes 1705 to buy and 1695 to sell around a mid price of 1700.\<close>

definition sample_pricing :: PricingModel where
  "sample_pricing = \<lparr>
     get_buy_price = (\<lambda>ts pair amount.
        Inr \<lparr>price = 1705, mid_price = 1700, lp_fee = None, pair_fee = None\<rparr>),
     get_sell_price = (\<lambda>ts pair quantity.
        Inr \<lparr>price = 1695, mid_price = 1700, lp_fee = None, pair_fee = None\<rparr>)\<rparr>"

text \<open>
  Position methods for the sample runs: every position is long and open, both quantities
  are the sum of the planned quantities of the trades, the last recorded price is 1700.
\<close>

definition sample_methods :: PositionMethods where
  "sample_methods = \<lparr>is_long = (\<lambda>p. True), is_open = (\<lambda>p. True),
     get_quantity = (\<lambda>p. sum_list (map planned_quantity (trades p))),
     get_live_quantity = (\<lambda>p. sum_list (map planned_quantity (trades p))),
     get_current_price = (\<lambda>p. 1700)\<rparr>"


definition cake_buy :: TradeExecution where
  "cake_buy = \<lparr>trade_id = 1, te_position_id = 1, te_pair = cake_wbnb, te_opened_at = 1,
     planned_quantity = 5, planned_price = 1700, planned_mid_price = Some 1700,
     trade_type = rebalance, te_reserve_currency = busd, te_reserve_currency_price = 1,
     te_notes = None, te_pair_fee = None, lp_fees_estimated = None\<rparr>"

definition cake_sell :: TradeExecution where
  "cake_sell = cake_buy\<lparr>trade_id := 2, te_opened_at := 2, planned_quantity := - 5\<rparr>"

definition cake_position :: TradingPosition where
  "cake_position = \<lparr>position_id = 1, tp_pair = cake_wbnb, trades = [cake_buy],
     stop_loss = None, take_profit = None, tp_notes = None, tp_opened_at = 1\<rparr>"

definition exhausted_position :: TradingPosition where
  "exhausted_position = cake_position\<lparr>trades := [cake_buy, cake_sell]\<rparr>"

definition manager_with :: "TradingPosition list \<Rightarrow> PositionManager" where
  "manager_with ops = \<lparr>timestamp = 3,
     state = \<lparr>portfolio = \<lparr>next_position_id = 2, next_trade_id = 3, open_positions = ops,
                closed_positions = [], reserve_currency = busd, reserve_price = 1\<rparr>,
              visualisation_messages = []\<rparr>,
     pm_reserve_currency = busd\<rparr>"

definition empty_manager :: PositionManager where
  "empty_manager = manager_with []"

definition holding_manager :: PositionManager where
  "holding_manager = manager_with [cake_position]"

definition exhausted_manager :: PositionManager where
  "exhausted_manager = manager_with [exhausted_position]"

section \<open>Route resolution and validation\<close>

lemma toChecksumAddress_cong:
  "lower a = lower b \<Longrightarrow> toChecksumAddress eip_case a = toChecksumAddress eip_case b"
  by (simp add: toChecksumAddress_def)

text \<open>A pair of pairs that \<open>validate_pairs\<close> accepts satisfies its chaining assertion.\<close>

lemma validate_pairs_chaining:
  "validate_pairs str_pair tp ip = Inr () \<Longrightarrow> asset_eq (base ip) (quote tp)"
  by (simp add: validate_pairs_def split: if_splits)

text \<open>
  Claim C1. With no intermediary pair, \<open>route_tokens\<close> returns the target pair's base token
  address, its quote token address and none. With an intermediary pair that passes the
  chaining assertion of \<open>validate_pairs\<close> (the intermediary's base asset is the target's
  quote asset), it returns the target's base token address, the intermediary's quote token
  address and the intermediary's base token address.
\<close>

theorem route_tokens_triple:
  "route_tokens eip_case tp None =
     (toChecksumAddress eip_case (address (base tp)),
      toChecksumAddress eip_case (address (quote tp)), None)
   \<and> (asset_eq (base ip) (quote tp) \<longrightarrow>
        route_tokens eip_case tp (Some ip) =
          (toChecksumAddress eip_case (address (base tp)),
           toChecksumAddress eip_case (address (quote ip)),
           Some (toChecksumAddress eip_case (address (base ip)))))"
proof -
  have "toChecksumAddress eip_case (address (quote tp)) = toChecksumAddress eip_case (address (base ip))"
    if "asset_eq (base ip) (quote tp)"
    using that by (intro toChecksumAddress_cong) (simp add: asset_eq_def)
  then show ?thesis
    by (simp add: route_tokens_def)
qed

theorem route_tokens_triple_witness:
  "asset_eq (base wbnb_busd) (quote cake_wbnb)
   \<and> validate_pairs sym_of cake_wbnb wbnb_busd = Inr ()
   \<and> route_tokens id cake_wbnb (Some wbnb_busd) =
        (''0x0e09fabb73bd3ade0a17ecc321fd13a19e81ce82'',
         ''0xe9e7cea3dedca5984780bafc599bd69add087d56'',
         Some ''0xbb4cdb9cbd36b01bd1cbaebf2de08d9173bc095c'')"
proof -
  have h: "asset_eq (base wbnb_busd) (quote cake_wbnb)"
    by code_simp
  have v: "validate_pairs sym_of cake_wbnb wbnb_busd = Inr ()"
    by code_simp
  have a: "toChecksumAddress id (address (base cake_wbnb)) = ''0x0e09fabb73bd3ade0a17ecc321fd13a19e81ce82''"
    "toChecksumAddress id (address (quote wbnb_busd)) = ''0xe9e7cea3dedca5984780bafc599bd69add087d56''"
    "toChecksumAddress id (address (base wbnb_busd)) = ''0xbb4cdb9cbd36b01bd1cbaebf2de08d9173bc095c''"
    by code_simp+
  from route_tokens_triple [where eip_case = id and tp = cake_wbnb and ip = wbnb_busd] h
  have "route_tokens id cake_wbnb (Some wbnb_busd) =
          (toChecksumAddress id (address (base cake_wbnb)),
           toChecksumAddress id (address (quote wbnb_busd)),
           Some (toChecksumAddress id (address (base wbnb_busd))))"
    by blast
  then show ?thesis using h v
    by (simp only: a simp_thms)
qed

text \<open>
  Claim C2, as stated: \<open>validate_pairs\<close> succeeds if and only if the intermediary's quote
  asset equals the target's base asset and both exchange addresses are present and equal up
  to case, and every violation raises an error whose message names the offending pair. The
  code chains the other way round (Cake/WBNB through WBNB/BUSD passes although BUSD is not
  Cake), and an exchange mismatch raises an assertion error without any message.
\<close>

theorem validate_pairs_claimed_direction_counterexample:
  "validate_pairs sym_of cake_wbnb wbnb_busd = Inr ()
   \<and> \<not> asset_eq (quote wbnb_busd) (base cake_wbnb)
   \<and> validate_pairs sym_of cake_wbnb wbnb_busd_elsewhere = Inl (AssertionError None)"
  by code_simp

text \<open>
  Claim C2, amended: \<open>validate_pairs\<close> succeeds if and only if the intermediary's base
  asset equals the target's quote asset, both pairs carry a non-empty exchange address and
  the two addresses are equal after lower-casing. A broken chain raises an assertion error
  whose message names both pairs; a missing exchange address raises one whose message names
  the pair that lacks it; an exchange mismatch raises an assertion error with no message.
\<close>

theorem validate_pairs_iff:
  "(validate_pairs str_pair tp ip = Inr () \<longleftrightarrow>
      asset_eq (base ip) (quote tp)
      \<and> (\<exists>te ie. exchange_address tp = Some te \<and> exchange_address ip = Some ie
             \<and> te \<noteq> [] \<and> ie \<noteq> [] \<and> lower ie = lower te))
   \<and> (\<not> asset_eq (base ip) (quote tp) \<longrightarrow>
        validate_pairs str_pair tp ip =
          Inl (AssertionError (Some (''Could not hop from intermediary '' @ str_pair ip
                 @ '' -> destination '' @ str_pair tp))))
   \<and> (asset_eq (base ip) (quote tp) \<and> \<not> truthy_str (exchange_address tp) \<longrightarrow>
        validate_pairs str_pair tp ip =
          Inl (AssertionError (Some (''Target pair '' @ str_pair tp
                 @ '' missing exchange information''))))
   \<and> (asset_eq (base ip) (quote tp) \<and> truthy_str (exchange_address tp)
        \<and> \<not> truthy_str (exchange_address ip) \<longrightarrow>
        validate_pairs str_pair tp ip =
          Inl (AssertionError (Some (''Intermediary pair '' @ str_pair ip
                 @ '' missing exchange information''))))
   \<and> (asset_eq (base ip) (quote tp) \<and> truthy_str (exchange_address tp)
        \<and> truthy_str (exchange_address ip)
        \<and> lower (the (exchange_address ip)) \<noteq> lower (the (exchange_address tp)) \<longrightarrow>
        validate_pairs str_pair tp ip = Inl (AssertionError None))"
  by (auto simp: validate_pairs_def truthy_str_def split: option.splits)

theorem validate_pairs_iff_witness:
  "validate_pairs sym_of cake_wbnb wbnb_busd = Inr ()
   \<and> validate_pairs sym_of wbnb_busd cake_wbnb =
        Inl (AssertionError (Some ''Could not hop from intermediary Cake-WBNB -> destination WBNB-BUSD''))
   \<and> validate_pairs sym_of cake_wbnb_no_exchange wbnb_busd =
        Inl (AssertionError (Some ''Target pair Cake-WBNB missing exchange information''))
   \<and> validate_pairs sym_of cake_wbnb wbnb_busd_no_exchange =
        Inl (AssertionError (Some ''Intermediary pair WBNB-BUSD missing exchange information''))
   \<and> validate_pairs sym_of cake_wbnb wbnb_busd_elsewhere = Inl (AssertionError None)"
proof -
  have ok: "asset_eq (base wbnb_busd) (quote cake_wbnb)"
    "exchange_address cake_wbnb = Some pancake_factory"
    "exchange_address wbnb_busd = Some (lower pancake_factory)"
    "pancake_factory \<noteq> []" "lower pancake_factory \<noteq> []"
    "lower (lower pancake_factory) = lower pancake_factory"
    by code_simp+
  have hop: "\<not> asset_eq (base cake_wbnb) (quote wbnb_busd)"
    by code_simp
  have tgt: "asset_eq (base wbnb_busd) (quote cake_wbnb_no_exchange)
      \<and> \<not> truthy_str (exchange_address cake_wbnb_no_exchange)"
    by code_simp
  have mid: "asset_eq (base wbnb_busd_no_exchange) (quote cake_wbnb)
      \<and> truthy_str (exchange_address cake_wbnb)
      \<and> \<not> truthy_str (exchange_address wbnb_busd_no_exchange)"
    by code_simp
  have mis: "asset_eq (base wbnb_busd_elsewhere) (quote cake_wbnb)
      \<and> truthy_str (exchange_address cake_wbnb)
      \<and> truthy_str (exchange_address wbnb_busd_elsewhere)
      \<and> lower (the (exchange_address wbnb_busd_elsewhere))
            \<noteq> lower (the (exchange_address cake_wbnb))"
    by code_simp
  have shown: "sym_of cake_wbnb = ''Cake-WBNB''" "sym_of wbnb_busd = ''WBNB-BUSD''"
    "sym_of cake_wbnb_no_exchange = ''Cake-WBNB''" "sym_of wbnb_busd_no_exchange = ''WBNB-BUSD''"
    by code_simp+
  have 1: "validate_pairs sym_of cake_wbnb wbnb_busd = Inr ()"
    using validate_pairs_iff [where str_pair = sym_of and tp = cake_wbnb and ip = wbnb_busd] ok
    by blast
  have 2: "validate_pairs sym_of wbnb_busd cake_wbnb =
        Inl (AssertionError (Some (''Could not hop from intermediary '' @ sym_of cake_wbnb
               @ '' -> destination '' @ sym_of wbnb_busd)))"
    using validate_pairs_iff [where str_pair = sym_of and tp = wbnb_busd and ip = cake_wbnb] hop
    by blast
  have 3: "validate_pairs sym_of cake_wbnb_no_exchange wbnb_busd =
        Inl (AssertionError (Some (''Target pair '' @ sym_of cake_wbnb_no_exchange
               @ '' missing exchange information'')))"
    using validate_pairs_iff [where str_pair = sym_of and tp = cake_wbnb_no_exchange
        and ip = wbnb_busd] tgt
    by blast
  have 4: "validate_pairs sym_of cake_wbnb wbnb_busd_no_exchange =
        Inl (AssertionError (Some (''Intermediary pair '' @ sym_of wbnb_busd_no_exchange
               @ '' missing exchange information'')))"
    using validate_pairs_iff [where str_pair = sym_of and tp = cake_wbnb
        and ip = wbnb_busd_no_exchange] mid
    by blast
  have 5: "validate_pairs sym_of cake_wbnb wbnb_busd_elsewhere = Inl (AssertionError None)"
    using validate_pairs_iff [where str_pair = sym_of and tp = cake_wbnb
        and ip = wbnb_busd_elsewhere] mis
    by blast
  from 1 2 3 4 5 show ?thesis
    by (simp add: shown)
qed

section \<open>Approvals and balances\<close>

lemma ensure_token_approved_cached:
  "cached st router token \<Longrightarrow>
     ensure_token_approved accepts ec chain st token router = (Inr [], st)"
  by (auto simp: ensure_token_approved_def cached_def defaultdict_get_def split: option.splits)

lemma ensure_token_approved_state:
  "\<not> cached st router token \<Longrightarrow> resolves accepts st token \<Longrightarrow>
     snd (ensure_token_approved accepts ec chain st token router)
       = mark_router_approved token router st"
  by (auto simp: ensure_token_approved_def cached_def resolves_def get_deployed_contract_def
      defaultdict_get_def mark_router_approved_def Let_def split: option.splits)

lemma mark_router_approved_cached:
  "cached (mark_router_approved token router st) router token"
  by (auto simp: cached_def mark_router_approved_def defaultdict_get_def split: option.splits)

lemma ensure_token_approved_unresolved:
  "\<not> cached st router token \<Longrightarrow> \<not> resolves accepts st token \<Longrightarrow>
     ensure_token_approved accepts ec chain st token router
       = (Inl (if accepts token then AttributeError else ValueError),
          st\<lparr>approved_routes := snd (defaultdict_get (approved_routes st) router)\<rparr>)"
  by (auto simp: ensure_token_approved_def cached_def resolves_def get_deployed_contract_def
      defaultdict_get_def split: option.splits)

lemma defaultdict_read_keeps:
  "cached (st\<lparr>approved_routes := snd (defaultdict_get (approved_routes st) router)\<rparr>) router token
     = cached st router token"
  "resolves accepts (st\<lparr>approved_routes := m\<rparr>) token = resolves accepts st token"
  by (auto simp: cached_def resolves_def defaultdict_get_def split: option.splits)

lemma ensure_token_approved_at_most_one:
  "fst (ensure_token_approved accepts ec chain st token router) = Inr txs \<Longrightarrow> length txs \<le> 1"
  by (auto simp: ensure_token_approved_def Let_def split: option.splits prod.splits if_splits
      sum.splits)

text \<open>
  Claim C4. \<open>ensure_token_approved\<close> returns at most one transaction. It returns one only
  when the cache had no entry for the router and token and the allowance read on the chain
  returned zero, and that transaction is \<open>approve(router, 2^256 - 1)\<close> on the token with a gas
  limit of 100000. The marking precedes the allowance read: once the token contract is
  resolved, the state left behind is the marked one whatever the chain answers, also when
  the allowance read raises. When the contract is not resolved, the call raises with the
  cache still unmarked, and the chain is not read.
\<close>

theorem ensure_token_approved_result:
  "(\<forall>txs. fst (ensure_token_approved accepts ec chain st token router) = Inr txs
       \<longrightarrow> length txs \<le> 1)
   \<and> (\<forall>tx txs. fst (ensure_token_approved accepts ec chain st token router) = Inr (tx # txs) \<longrightarrow>
         \<not> cached st router token
         \<and> (\<exists>tb. rs_tx_builder st = Some tb
               \<and> allowance chain (toChecksumAddress ec token) (hw_address (hot_wallet tb)) router
                   = Some 0)
         \<and> tx_function tx = ''approve''
         \<and> tx_args tx = [ArgAddress router, ArgUint (2 ^ 256 - 1)]
         \<and> tx_gas_limit tx = 100000
         \<and> tx_contract_address tx = toChecksumAddress ec token)
   \<and> (\<not> cached st router token \<and> resolves accepts st token \<longrightarrow>
         snd (ensure_token_approved accepts ec chain st token router)
           = mark_router_approved token router st
         \<and> cached (snd (ensure_token_approved accepts ec chain st token router)) router token)
   \<and> (\<not> cached st router token \<and> resolves accepts st token \<and> rs_tx_builder st = Some tb
        \<and> allowance chain (toChecksumAddress ec token) (hw_address (hot_wallet tb)) router = None
        \<longrightarrow> ensure_token_approved accepts ec chain st token router
              = (Inl RPCError, mark_router_approved token router st))
   \<and> (\<not> cached st router token \<and> \<not> resolves accepts st token \<longrightarrow>
         (\<exists>e. fst (ensure_token_approved accepts ec chain st token router) = Inl e)
         \<and> \<not> cached (snd (ensure_token_approved accepts ec chain st token router)) router token
         \<and> ensure_token_approved accepts ec chain' st token router
             = ensure_token_approved accepts ec chain st token router)"
proof -
  have one: "\<forall>txs. fst (ensure_token_approved accepts ec chain st token router) = Inr txs
       \<longrightarrow> length txs \<le> 1"
    using ensure_token_approved_at_most_one by blast
  have only: "\<forall>tx txs. fst (ensure_token_approved accepts ec chain st token router) = Inr (tx # txs)
         \<longrightarrow> \<not> cached st router token
         \<and> (\<exists>tb. rs_tx_builder st = Some tb
               \<and> allowance chain (toChecksumAddress ec token) (hw_address (hot_wallet tb)) router
                   = Some 0)
         \<and> tx_function tx = ''approve''
         \<and> tx_args tx = [ArgAddress router, ArgUint (2 ^ 256 - 1)]
         \<and> tx_gas_limit tx = 100000
         \<and> tx_contract_address tx = toChecksumAddress ec token"
    by (auto simp: ensure_token_approved_def Let_def cached_def defaultdict_get_def
        get_deployed_contract_def mark_router_approved_def create_transaction_def
        split: option.splits prod.splits if_splits sum.splits)
  have marked: "snd (ensure_token_approved accepts ec chain st token router)
           = mark_router_approved token router st
         \<and> cached (snd (ensure_token_approved accepts ec chain st token router)) router token"
    if "\<not> cached st router token \<and> resolves accepts st token"
    using that ensure_token_approved_state [of st router token accepts ec chain]
    by (simp add: mark_router_approved_cached)
  have raised: "ensure_token_approved accepts ec chain st token router
              = (Inl RPCError, mark_router_approved token router st)"
    if "\<not> cached st router token \<and> resolves accepts st token \<and> rs_tx_builder st = Some tb
        \<and> allowance chain (toChecksumAddress ec token) (hw_address (hot_wallet tb)) router = None"
    using that
    by (auto simp: ensure_token_approved_def cached_def resolves_def get_deployed_contract_def
        defaultdict_get_def mark_router_approved_def Let_def split: option.splits)
  have before: "(\<exists>e. fst (ensure_token_approved accepts ec chain st token router) = Inl e)
         \<and> \<not> cached (snd (ensure_token_approved accepts ec chain st token router)) router token
         \<and> ensure_token_approved accepts ec chain' st token router
             = ensure_token_approved accepts ec chain st token router"
    if "\<not> cached st router token \<and> \<not> resolves accepts st token"
    using that ensure_token_approved_unresolved [of st router token accepts ec]
    by (simp add: defaultdict_read_keeps)
  from one only marked raised before show ?thesis
    by blast
qed

lemma fresh_routing_state_simps:
  "rs_tx_builder fresh_routing_state = Some builder"
  "rs_hot_wallet fresh_routing_state = Some deployer"
  "approved_routes fresh_routing_state = Map.empty"
  "rs_web3 fresh_routing_state = Some (tb_web3 builder)"
  by (simp_all add: fresh_routing_state_def init_routing_state_def builder_def)

lemma unconnected_routing_state_simps:
  "rs_tx_builder unconnected_routing_state = None"
  "rs_web3 unconnected_routing_state = None"
  "approved_routes unconnected_routing_state = Map.empty"
  by (simp_all add: unconnected_routing_state_def init_routing_state_def)

lemma fresh_not_cached: "\<not> cached fresh_routing_state router token"
  by (simp add: cached_def fresh_routing_state_simps)

lemma busd_accepted: "forty_after_0x (address busd)"
  by code_simp

lemma fresh_resolves: "resolves forty_after_0x fresh_routing_state (address busd)"
  by (simp add: resolves_def busd_accepted fresh_routing_state_simps)

lemma unconnected_unresolved:
  "\<not> cached unconnected_routing_state router token"
  "\<not> resolves accepts unconnected_routing_state token"
  by (simp_all add: cached_def resolves_def unconnected_routing_state_simps)

lemma first_approval:
  "fst (ensure_token_approved forty_after_0x id quiet_chain fresh_routing_state (address busd)
          pancake_router) = Inr [approve_busd]"
proof -
  have "toChecksumAddress id (address busd) = address busd"
    by code_simp
  then show ?thesis
    by (simp add: ensure_token_approved_def defaultdict_get_def fresh_routing_state_simps
        get_deployed_contract_def busd_accepted
        mark_router_approved_def quiet_chain_def create_transaction_def approve_busd_def Let_def)
qed

theorem ensure_token_approved_result_witness:
  "\<not> cached fresh_routing_state pancake_router (address busd)
   \<and> fst (ensure_token_approved forty_after_0x id quiet_chain fresh_routing_state (address busd)
          pancake_router) = Inr [approve_busd]
   \<and> tx_function approve_busd = ''approve''
   \<and> tx_args approve_busd = [ArgAddress pancake_router, ArgUint (2 ^ 256 - 1)]
   \<and> tx_gas_limit approve_busd = 100000
   \<and> ensure_token_approved forty_after_0x id unreachable_chain fresh_routing_state
        (address busd) pancake_router
       = (Inl RPCError, mark_router_approved (address busd) pancake_router fresh_routing_state)
   \<and> cached (mark_router_approved (address busd) pancake_router fresh_routing_state)
       pancake_router (address busd)
   \<and> (\<exists>e. fst (ensure_token_approved forty_after_0x id quiet_chain unconnected_routing_state
               (address busd) pancake_router) = Inl e)
   \<and> \<not> cached (snd (ensure_token_approved forty_after_0x id quiet_chain
          unconnected_routing_state (address busd) pancake_router)) pancake_router (address busd)"
proof -
  note quiet = ensure_token_approved_result [where accepts = forty_after_0x and ec = id
      and chain = quiet_chain and chain' = quiet_chain
      and st = fresh_routing_state and token = "address busd" and router = pancake_router
      and tb = builder]
  note down = ensure_token_approved_result [where accepts = forty_after_0x and ec = id
      and chain = unreachable_chain and chain' = quiet_chain
      and st = fresh_routing_state and token = "address busd" and router = pancake_router
      and tb = builder]
  note loose = ensure_token_approved_result [where accepts = forty_after_0x and ec = id
      and chain = quiet_chain and chain' = quiet_chain
      and st = unconnected_routing_state and token = "address busd" and router = pancake_router
      and tb = builder]
  have fresh: "\<not> cached fresh_routing_state pancake_router (address busd)"
    by (rule fresh_not_cached)
  have none: "allowance unreachable_chain (toChecksumAddress id (address busd))
      (hw_address (hot_wallet builder)) pancake_router = None"
    by (simp add: unreachable_chain_def)
  have tx: "tx_function approve_busd = ''approve''
      \<and> tx_args approve_busd = [ArgAddress pancake_router, ArgUint (2 ^ 256 - 1)]
      \<and> tx_gas_limit approve_busd = 100000"
    using quiet first_approval by blast
  have raised: "ensure_token_approved forty_after_0x id unreachable_chain fresh_routing_state
      (address busd) pancake_router
       = (Inl RPCError, mark_router_approved (address busd) pancake_router fresh_routing_state)"
    using down fresh fresh_resolves none fresh_routing_state_simps(1) by blast
  have marked: "cached (mark_router_approved (address busd) pancake_router fresh_routing_state)
       pancake_router (address busd)"
    using down fresh fresh_resolves raised by simp
  have unmarked: "(\<exists>e. fst (ensure_token_approved forty_after_0x id quiet_chain
        unconnected_routing_state (address busd) pancake_router) = Inl e)
      \<and> \<not> cached (snd (ensure_token_approved forty_after_0x id quiet_chain
          unconnected_routing_state (address busd) pancake_router)) pancake_router (address busd)"
    using loose unconnected_unresolved by blast
  from fresh first_approval tx raised marked unmarked show ?thesis
    by blast
qed

text \<open>
  Claim C5, as stated: on every routing state the second of two calls with the same token
  and router returns the empty list. On the state built with the default arguments (no
  builder, no connection) the contract cannot be resolved: the first call raises before it
  marks the cache, and the second call raises the same way instead of returning a list.
\<close>

theorem ensure_token_approved_twice_counterexample:
  "fst (ensure_token_approved forty_after_0x id quiet_chain unconnected_routing_state
          (address busd) pancake_router) = Inl AttributeError
   \<and> fst (ensure_token_approved forty_after_0x id quiet_chain
        (snd (ensure_token_approved forty_after_0x id quiet_chain unconnected_routing_state
                (address busd) pancake_router))
        (address busd) pancake_router) = Inl AttributeError"
  by (simp add: ensure_token_approved_def defaultdict_get_def unconnected_routing_state_simps
      get_deployed_contract_def busd_accepted)

text \<open>
  Claim C5, amended. Two calls of \<open>ensure_token_approved\<close> with the same token and router on
  the same routing state, whatever the chain answers at either call, issue at most one
  approval transaction together. When the cache already holds the entry, or the first call
  resolves the token contract, the second call returns the empty list and leaves the state
  as the first call left it. Otherwise both calls raise the same error and issue nothing.
\<close>

theorem ensure_token_approved_twice:
  "(case ensure_token_approved accepts ec chain st token router of
      (first, st1) \<Rightarrow>
        (case ensure_token_approved accepts ec chain' st1 token router of
           (second, st2) \<Rightarrow>
             length (issued first) + length (issued second) \<le> 1
             \<and> (cached st router token \<or> resolves accepts st token \<longrightarrow>
                  second = Inr [] \<and> st2 = st1)
             \<and> (\<not> cached st router token \<and> \<not> resolves accepts st token \<longrightarrow>
                  (\<exists>e. first = Inl e \<and> second = Inl e))))"
proof -
  obtain first st1 where f: "ensure_token_approved accepts ec chain st token router = (first, st1)"
    by (cases "ensure_token_approved accepts ec chain st token router")
  obtain second st2 where
    s: "ensure_token_approved accepts ec chain' st1 token router = (second, st2)"
    by (cases "ensure_token_approved accepts ec chain' st1 token router")
  have le: "length (issued first) \<le> 1"
    using f ensure_token_approved_at_most_one [of accepts ec chain st token router]
    by (cases first) (simp_all add: issued_def)
  have hit: "second = Inr [] \<and> st2 = st1" if "cached st router token \<or> resolves accepts st token"
  proof -
    have "cached st1 router token"
    proof (cases "cached st router token")
      case True
      then show ?thesis
        using f ensure_token_approved_cached [of st router token accepts ec chain] by simp
    next
      case False
      then have "st1 = mark_router_approved token router st"
        using that f ensure_token_approved_state [of st router token accepts ec chain] by simp
      then show ?thesis
        by (simp add: mark_router_approved_cached)
    qed
    then show ?thesis
      using s ensure_token_approved_cached [of st1 router token accepts ec chain'] by simp
  qed
  have miss: "\<exists>e. first = Inl e \<and> second = Inl e"
    if n: "\<not> cached st router token \<and> \<not> resolves accepts st token"
  proof -
    let ?e = "if accepts token then AttributeError else ValueError"
    let ?st0 = "st\<lparr>approved_routes := snd (defaultdict_get (approved_routes st) router)\<rparr>"
    have 1: "first = Inl ?e" "st1 = ?st0"
      using n f ensure_token_approved_unresolved [of st router token accepts ec chain] by simp_all
    have "\<not> cached ?st0 router token" "\<not> resolves accepts ?st0 token"
      using n by (simp_all add: defaultdict_read_keeps)
    then have "fst (ensure_token_approved accepts ec chain' ?st0 token router) = Inl ?e"
      using ensure_token_approved_unresolved [of ?st0 router token accepts ec chain'] by simp
    then have "second = Inl ?e"
      using s 1 by simp
    then show ?thesis using 1 by blast
  qed
  have total: "length (issued first) + length (issued second) \<le> 1"
  proof (cases "cached st router token \<or> resolves accepts st token")
    case True
    then show ?thesis using hit le by (simp add: issued_def)
  next
    case False
    then obtain e where "first = Inl e" "second = Inl e" using miss by blast
    then show ?thesis by (simp add: issued_def)
  qed
  show ?thesis
    using f s total hit miss by simp
qed

theorem ensure_token_approved_twice_witness:
  "fst (ensure_token_approved forty_after_0x id quiet_chain fresh_routing_state (address busd)
          pancake_router) = Inr [approve_busd]
   \<and> fst (ensure_token_approved forty_after_0x id quiet_chain
        (snd (ensure_token_approved forty_after_0x id quiet_chain fresh_routing_state
                (address busd) pancake_router))
        (address busd) pancake_router) = Inr []"
  using ensure_token_approved_twice [where accepts = forty_after_0x and ec = id
      and chain = quiet_chain and chain' = quiet_chain
      and st = fresh_routing_state and token = "address busd" and router = pancake_router]
    first_approval fresh_resolves
  by (simp add: case_prod_beta)

text \<open>
  Claim C7. \<open>check_has_enough_tokens\<close> raises \<open>OutOfBalance\<close> exactly when the wallet's
  balance of the token, as read from the chain, is strictly less than the amount. The message
  then carries the amount and the balance, each divided by ten to the power of the token's
  decimals. When the balance is at least the amount the call returns normally. The routing
  state is never changed.
\<close>

theorem check_has_enough_tokens_out_of_balance:
  "((\<exists>msg. fst (check_has_enough_tokens sd sdec chain st erc amount) = Inl (OutOfBalance msg))
      \<longleftrightarrow> (\<exists>hw b. rs_hot_wallet st = Some hw \<and> balanceOf chain erc (hw_address hw) = Some b
              \<and> int b < amount))
   \<and> (\<forall>hw b. rs_hot_wallet st = Some hw \<and> balanceOf chain erc (hw_address hw) = Some b
         \<and> int b < amount \<longrightarrow>
         fst (check_has_enough_tokens sd sdec chain st erc amount) =
           Inl (OutOfBalance (''Address '' @ hw_address hw @ '' does not have enough ''
             @ sd (fetch_erc20_details chain erc) @ '' tokens to trade. Need ''
             @ sdec (of_int amount / 10 ^ td_decimals (fetch_erc20_details chain erc))
             @ '', has ''
             @ sdec (of_nat b / 10 ^ td_decimals (fetch_erc20_details chain erc)))))
   \<and> (\<forall>hw b. rs_hot_wallet st = Some hw \<and> balanceOf chain erc (hw_address hw) = Some b
         \<and> amount \<le> int b \<longrightarrow>
         check_has_enough_tokens sd sdec chain st erc amount = (Inr (), st))
   \<and> snd (check_has_enough_tokens sd sdec chain st erc amount) = st"
  by (auto simp: check_has_enough_tokens_def convert_to_decimals_def Let_def split: option.splits)

theorem check_has_enough_tokens_out_of_balance_witness:
  "fst (check_has_enough_tokens td_symbol whole_units quiet_chain fresh_routing_state
          (address busd) 1000)
     = Inl (OutOfBalance (''Address 0x70997970C51812dc3A010C7d01b50e0d17dc79C8''
          @ '' does not have enough BUSD tokens to trade. Need 10, has 5''))
   \<and> check_has_enough_tokens td_symbol whole_units quiet_chain fresh_routing_state
          (address busd) 500
     = (Inr (), fresh_routing_state)"
proof -
  note inst = check_has_enough_tokens_out_of_balance [where sd = td_symbol and sdec = whole_units
      and chain = quiet_chain and st = fresh_routing_state and erc = "address busd"]
  have bal: "balanceOf quiet_chain (address busd) (hw_address deployer) = Some 500"
    by (simp add: quiet_chain_def)
  have details: "td_symbol (fetch_erc20_details quiet_chain (address busd)) = ''BUSD''"
    "td_decimals (fetch_erc20_details quiet_chain (address busd)) = 2"
    by (simp_all add: quiet_chain_def)
  have shown: "whole_units 10 = ''10''" "whole_units 5 = ''5''"
    "hw_address deployer = ''0x70997970C51812dc3A010C7d01b50e0d17dc79C8''"
    by code_simp+
  have short: "fst (check_has_enough_tokens td_symbol whole_units quiet_chain fresh_routing_state
          (address busd) 1000)
     = Inl (OutOfBalance (''Address '' @ hw_address deployer @ '' does not have enough ''
             @ td_symbol (fetch_erc20_details quiet_chain (address busd))
             @ '' tokens to trade. Need ''
             @ whole_units (of_int 1000 / 10 ^ td_decimals (fetch_erc20_details quiet_chain (address busd)))
             @ '', has ''
             @ whole_units (of_nat 500 / 10 ^ td_decimals (fetch_erc20_details quiet_chain (address busd)))))"
    using inst [of 1000] fresh_routing_state_simps(2) bal by simp
  have enough: "check_has_enough_tokens td_symbol whole_units quiet_chain fresh_routing_state
          (address busd) 500 = (Inr (), fresh_routing_state)"
    using inst [of 500] fresh_routing_state_simps(2) bal by simp
  from short enough show ?thesis
    by (simp add: details shown)
qed

section \<open>The position manager\<close>

lemma manager_with_simps:
  "open_positions (portfolio (state (manager_with ops))) = ops"
  "next_position_id (portfolio (state (manager_with ops))) = 2"
  "next_trade_id (portfolio (state (manager_with ops))) = 3"
  "timestamp (manager_with ops) = 3"
  by (simp_all add: manager_with_def)

subsection \<open>The ledger operations\<close>


lemma create_trade_reserve:
  "create_trade ts pair None (Some r) ap tt rc rcp nt pf lf pmid st = Inr ((pos, trade, created), st')
     \<Longrightarrow> planned_quantity trade = r / ap \<and> ap \<noteq> 0"
  by (auto simp: create_trade_def Let_def split: option.splits if_splits)


lemma create_trade_reserve_succeeds:
  "ap \<noteq> 0 \<Longrightarrow> \<exists>pos trade created st'.
     create_trade ts pair None (Some r) ap tt rc rcp nt pf lf pmid st = Inr ((pos, trade, created), st')"
  by (auto simp: create_trade_def Let_def split: option.splits)

lemma create_trade_created:
  "create_trade ts pair qo ro ap tt rc rcp nt pf lf pmid st = Inr ((pos, trade, created), st')
     \<Longrightarrow> created \<longleftrightarrow> get_position_by_trading_pair (portfolio st) pair = None"
  by (auto simp: create_trade_def Let_def split: option.splits sum.splits if_splits)

lemma create_trade_risk_levels:
  "create_trade ts pair qo ro ap tt rc rcp nt pf lf pmid st = Inr ((pos, trade, created), st')
     \<Longrightarrow> risk_levels st' = risk_levels st
         \<or> risk_levels st' = risk_levels st @ [(next_position_id (portfolio st), None, None)]"
  apply (auto simp: create_trade_def Let_def  split: option.splits sum.splits if_splits)
  apply (auto simp: risk_levels_def update_position_def comp_def)
  done

lemma find_map_preserve:
  "(\<And>x. P (g x) = P x) \<Longrightarrow> find P (map g xs) = map_option g (find P xs)"
  by (induction xs) auto

lemma find_snoc_new:
  "find P xs = None \<Longrightarrow> P x \<Longrightarrow> find P (xs @ [x]) = Some x"
  by (induction xs) (auto split: if_splits)

lemma lookup_update_position:
  "(\<And>p. tp_pair (f p) = tp_pair p) \<Longrightarrow>
     get_position_by_trading_pair (portfolio (update_position pid f st)) pair
       = map_option (\<lambda>p. if position_id p = pid then f p else p)
           (get_position_by_trading_pair (portfolio st) pair)"
  unfolding get_position_by_trading_pair_def update_position_def
  by (simp add: find_map_preserve)

lemma create_trade_lookup:
  "create_trade ts pair qo ro ap tt rc rcp nt pf lf pmid st = Inr ((pos, trade, created), st')
     \<Longrightarrow> get_position_by_trading_pair (portfolio st') pair = Some pos"
  apply (auto simp: create_trade_def Let_def split: option.splits sum.splits if_splits)
  apply (auto simp: get_position_by_trading_pair_def update_position_def find_map_preserve find_snoc_new)
  done

lemma create_trade_new_position:
  "create_trade ts pair qo ro ap tt rc rcp nt pf lf pmid st = Inr ((pos, trade, True), st')
     \<Longrightarrow> trades pos = [trade] \<and> stop_loss pos = None \<and> take_profit pos = None
         \<and> trade_count st' = trade_count st + 1"
  by (auto simp: create_trade_def Let_def trade_count_def split: option.splits sum.splits if_splits)

lemma trade_count_update_position:
  "(\<And>p. length (trades (f p)) = length (trades p)) \<Longrightarrow>
     trade_count (update_position pid f st) = trade_count st"
proof -
  assume a: "\<And>p. length (trades (f p)) = length (trades p)"
  have "length (trades (if position_id x = pid then f x else x)) = length (trades x)" for x
    by (simp add: a)
  then show ?thesis
    by (simp add: trade_count_def update_position_def comp_def)
qed



subsection \<open>Reading and closing positions\<close>

text \<open>
  Claim C10. \<open>get_current_position\<close> raises \<open>NoSingleOpenPositionException\<close> exactly when
  the number of open positions is not one. With exactly one open position it returns that
  position. The manager, and with it the portfolio, is left as it was.
\<close>

theorem get_current_position_single:
  "((\<exists>msg. fst (get_current_position fmt pm) = Inl (NoSingleOpenPositionException msg))
      \<longleftrightarrow> length (open_positions (portfolio (state pm))) \<noteq> 1)
   \<and> (\<forall>p. open_positions (portfolio (state pm)) = [p] \<longrightarrow>
         fst (get_current_position fmt pm) = Inr p)
   \<and> snd (get_current_position fmt pm) = pm"
  by (cases "open_positions (portfolio (state pm))")
    (auto simp: get_current_position_def Let_def)

theorem get_current_position_single_witness:
  "(\<exists>msg. fst (get_current_position sample_formats empty_manager)
            = Inl (NoSingleOpenPositionException msg))
   \<and> (\<exists>msg. fst (get_current_position sample_formats
                    (manager_with [cake_position, exhausted_position]))
            = Inl (NoSingleOpenPositionException msg))
   \<and> get_current_position sample_formats holding_manager = (Inr cake_position, holding_manager)"
proof -
  have none: "length (open_positions (portfolio (state empty_manager))) \<noteq> 1"
    by (simp add: empty_manager_def manager_with_simps)
  have two: "length (open_positions (portfolio (state
      (manager_with [cake_position, exhausted_position])))) \<noteq> 1"
    by (simp add: manager_with_simps)
  have one: "open_positions (portfolio (state holding_manager)) = [cake_position]"
    by (simp add: holding_manager_def manager_with_simps)
  have "fst (get_current_position sample_formats holding_manager) = Inr cake_position"
    "snd (get_current_position sample_formats holding_manager) = holding_manager"
    using get_current_position_single [where fmt = sample_formats and pm = holding_manager] one
    by blast+
  then have "get_current_position sample_formats holding_manager
      = (Inr cake_position, holding_manager)"
    by (simp add: prod_eq_iff)
  then show ?thesis
    using get_current_position_single [where fmt = sample_formats and pm = empty_manager] none
      get_current_position_single [where fmt = sample_formats
        and pm = "manager_with [cake_position, exhausted_position]"] two
    by blast
qed

text \<open>
  Claim C6. On a position that is long and open and whose live quantity is zero,
  \<open>close_position\<close> returns \<open>None\<close>, with or without \<open>trades_as_list\<close>, and leaves the
  manager as it was: no trade is created and nothing is raised.
\<close>

theorem close_position_exhausted:
  "is_long m p \<and> is_open m p \<and> get_live_quantity m p = 0 \<longrightarrow>
     close_position fmt m pricing pm p tt remark as_list = (Inr NoTrade, pm)
     \<and> trade_count (state (snd (close_position fmt m pricing pm p tt remark as_list)))
         = trade_count (state pm)"
  by (simp add: close_position_def)

theorem close_position_exhausted_witness:
  "is_long sample_methods exhausted_position \<and> is_open sample_methods exhausted_position
   \<and> get_live_quantity sample_methods exhausted_position = 0
   \<and> close_position sample_formats sample_methods sample_pricing exhausted_manager
        exhausted_position rebalance None False = (Inr NoTrade, exhausted_manager)
   \<and> close_position sample_formats sample_methods sample_pricing exhausted_manager
        exhausted_position rebalance None True = (Inr NoTrade, exhausted_manager)"
proof -
  have h: "is_long sample_methods exhausted_position \<and> is_open sample_methods exhausted_position
      \<and> get_live_quantity sample_methods exhausted_position = 0"
    by (simp add: sample_methods_def exhausted_position_def cake_position_def cake_buy_def
        cake_sell_def)
  show ?thesis
    using h
      close_position_exhausted [where m = sample_methods and p = exhausted_position
        and fmt = sample_formats and pricing = sample_pricing and pm = exhausted_manager
        and tt = rebalance and remark = None and as_list = False]
      close_position_exhausted [where m = sample_methods and p = exhausted_position
        and fmt = sample_formats and pricing = sample_pricing and pm = exhausted_manager
        and tt = rebalance and remark = None and as_list = True]
    by blast
qed

subsection \<open>Adjusting a position\<close>



lemma holding_cake:
  "get_position_by_trading_pair (portfolio (state holding_manager)) cake_wbnb = Some cake_position"
  by (simp add: get_position_by_trading_pair_def holding_manager_def manager_with_simps
      cake_position_def)

lemma sample_quote:
  "get_buy_price sample_pricing ts pair amount
     = Inr \<lparr>price = 1705, mid_price = 1700, lp_fee = None, pair_fee = None\<rparr>"
  by (simp add: sample_pricing_def)


subsection \<open>Opening a position\<close>

lemma open_1x_long_conflict:
  assumes "get_position_by_trading_pair (portfolio (state pm)) pair \<noteq> None"
  shows "\<exists>e. fst (open_1x_long fmt pricing pm pair val tpp slp nt) = Inl e"
    and "get_buy_price pricing (timestamp pm) pair val = Inr ps \<Longrightarrow> price ps \<noteq> 0 \<Longrightarrow>
      fst (open_1x_long fmt pricing pm pair val tpp slp nt)
        = Inl (AssertionError (Some (''There was conflicting open position for pair: ''
                 @ fmt_pair fmt pair)))"
proof -
  have nc: "\<not> created" if "create_trade ts pair qo ro ap tt rc rcp n pf lf pmid (state pm)
      = Inr ((pos, trade, created), st')" for ts qo ro ap tt rc rcp n pf lf pmid pos trade created st'
    using create_trade_created [OF that] assms by simp
  show "\<exists>e. fst (open_1x_long fmt pricing pm pair val tpp slp nt) = Inl e"
    by (auto simp: open_1x_long_def get_default_reserve_currency_def
        split: sum.splits prod.splits dest: nc)
  assume q: "get_buy_price pricing (timestamp pm) pair val = Inr ps" and p: "price ps \<noteq> 0"
  obtain pos trade created st1 where
    c: "create_trade (timestamp pm) pair None (Some val) (price ps) rebalance
          (pm_reserve_currency pm) (reserve_price (portfolio (state pm))) None
          (pair_fee ps) (lp_fee ps) (Some (mid_price ps)) (state pm)
        = Inr ((pos, trade, created), st1)"
    using create_trade_reserve_succeeds [OF p] by blast
  then have "\<not> created" by (rule nc)
  then show "fst (open_1x_long fmt pricing pm pair val tpp slp nt)
        = Inl (AssertionError (Some (''There was conflicting open position for pair: ''
                 @ fmt_pair fmt pair)))"
    using q c by (simp add: open_1x_long_def get_default_reserve_currency_def)
qed

lemma open_1x_long_new:
  assumes n: "get_position_by_trading_pair (portfolio (state pm)) pair = None"
    and q: "get_buy_price pricing (timestamp pm) pair val = Inr ps" and p: "price ps \<noteq> 0"
  shows "\<exists>trade p'. fst (open_1x_long fmt pricing pm pair val tpp slp nt) = Inr [trade]
      \<and> planned_quantity trade = val / price ps
      \<and> trade_count (state (snd (open_1x_long fmt pricing pm pair val tpp slp nt)))
          = trade_count (state pm) + 1
      \<and> get_position_by_trading_pair
            (portfolio (state (snd (open_1x_long fmt pricing pm pair val tpp slp nt)))) pair = Some p'
      \<and> trades p' = [trade]
      \<and> take_profit p' = (case tpp of None \<Rightarrow> None
            | Some x \<Rightarrow> if x = 0 then None else Some (mid_price ps * x))
      \<and> stop_loss p' = (case slp of None \<Rightarrow> None
            | Some x \<Rightarrow> if x = 0 then None else Some (mid_price ps * x))"
proof -
  obtain pos trade created st1 where
    c: "create_trade (timestamp pm) pair None (Some val) (price ps) rebalance
          (pm_reserve_currency pm) (reserve_price (portfolio (state pm))) None
          (pair_fee ps) (lp_fee ps) (Some (mid_price ps)) (state pm)
        = Inr ((pos, trade, created), st1)"
    using create_trade_reserve_succeeds [OF p] by blast
  have cr: "created" using create_trade_created [OF c] n by simp
  have pq: "planned_quantity trade = val / price ps"
    using create_trade_reserve [OF c] by simp
  have new: "trades pos = [trade]" "stop_loss pos = None" "take_profit pos = None"
    "trade_count st1 = trade_count (state pm) + 1"
    using create_trade_new_position [of _ _ _ _ _ _ _ _ _ _ _ _ _ pos trade st1] c cr by simp_all
  have look: "get_position_by_trading_pair (portfolio st1) pair = Some pos"
    using create_trade_lookup [OF c] .
  define pid where "pid = position_id pos"
  define st2 where "st2 = (if truthy_num tpp then
      update_position pid (\<lambda>p. p\<lparr>take_profit := Some (mid_price ps * the tpp)\<rparr>) st1 else st1)"
  define st3 where "st3 = (if truthy_num slp then
      update_position pid (\<lambda>p. p\<lparr>stop_loss := Some (mid_price ps * the slp)\<rparr>) st2 else st2)"
  define st4 where "st4 = (if truthy_str nt then set_notes pid (trade_id trade) (the nt) st3 else st3)"
  define trade' where "trade' = (if truthy_str nt then trade\<lparr>te_notes := nt\<rparr> else trade)"
  define st5 where "st5 = st4\<lparr>visualisation_messages := visualisation_messages st4 @
      [(timestamp pm, ''Opened 1x long on '' @ fmt_pair fmt pair
          @ '', position value '' @ fmt_number fmt val @ '' USD'')]\<rparr>"
  have r: "open_1x_long fmt pricing pm pair val tpp slp nt = (Inr [trade'], pm\<lparr>state := st5\<rparr>)"
    using q c cr
    by (simp add: open_1x_long_def get_default_reserve_currency_def Let_def
        pid_def st2_def st3_def st4_def st5_def trade'_def)
  have l2: "get_position_by_trading_pair (portfolio st2) pair
      = Some (if truthy_num tpp then pos\<lparr>take_profit := Some (mid_price ps * the tpp)\<rparr> else pos)"
    using look by (simp add: st2_def lookup_update_position pid_def)
  have l3: "get_position_by_trading_pair (portfolio st3) pair
      = Some ((if truthy_num tpp then pos\<lparr>take_profit := Some (mid_price ps * the tpp)\<rparr> else pos)
               \<lparr>stop_loss := (if truthy_num slp then Some (mid_price ps * the slp) else None)\<rparr>)"
    using l2 new(2) by (simp add: st3_def lookup_update_position pid_def)
  have nt: "truthy_str nt \<Longrightarrow> nt = Some (the nt)"
    by (cases nt) (simp_all add: truthy_str_def)
  obtain p' where l4: "get_position_by_trading_pair (portfolio st4) pair = Some p'"
    and f4: "trades p' = [trade']"
       "take_profit p' = (if truthy_num tpp then Some (mid_price ps * the tpp) else None)"
       "stop_loss p' = (if truthy_num slp then Some (mid_price ps * the slp) else None)"
    using l3 new nt
    by (cases "truthy_str nt")
      (auto simp: st4_def set_notes_def lookup_update_position pid_def trade'_def)
  have tc: "trade_count st5 = trade_count (state pm) + 1"
    using new(4)
    by (simp add: st5_def st4_def st3_def st2_def set_notes_def trade_count_update_position
        trade_count_def [of "st\<lparr>visualisation_messages := ms\<rparr>" for st ms]
        trade_count_def [symmetric])
  have pq': "planned_quantity trade' = val / price ps"
    using pq by (simp add: trade'_def)
  have tpv: "(if truthy_num tpp then Some (mid_price ps * the tpp) else None)
      = (case tpp of None \<Rightarrow> None | Some x \<Rightarrow> if x = 0 then None else Some (mid_price ps * x))"
    by (cases tpp) (simp_all add: truthy_num_def)
  have slv: "(if truthy_num slp then Some (mid_price ps * the slp) else None)
      = (case slp of None \<Rightarrow> None | Some x \<Rightarrow> if x = 0 then None else Some (mid_price ps * x))"
    by (cases slp) (simp_all add: truthy_num_def)
  have l5: "get_position_by_trading_pair (portfolio st5) pair = Some p'"
    using l4 by (simp add: st5_def get_position_by_trading_pair_def)
  show ?thesis
    using r pq' tc l5 f4 tpv slv by simp
qed

text \<open>
  Claim C8, as stated: whenever \<open>take_profit_pct\<close> or \<open>stop_loss_pct\<close> is supplied, the
  position's level is set to the mid price times the percentage. A supplied percentage of
  zero is falsy in \<open>if take_profit_pct:\<close> and \<open>if stop_loss_pct:\<close>, so the level stays
  unset instead of becoming zero: opening a position with both percentages zero leaves the
  new position (id 2) with no level.
\<close>

theorem open_1x_long_zero_pct_counterexample:
  "risk_levels (state (snd (open_1x_long sample_formats sample_pricing empty_manager cake_wbnb
      8525 (Some 0) (Some 0) None))) = [(2, None, None)]"
  by (simp add: open_1x_long_def sample_pricing_def empty_manager_def manager_with_def
      get_default_reserve_currency_def create_trade_def get_position_by_trading_pair_def
      truthy_num_def truthy_str_def risk_levels_def Let_def)

text \<open>
  Claim C8, amended. \<open>open_1x_long\<close> raises whenever an open position already exists for
  the pair; when the quote is available at a nonzero price the error is the assertion on
  \<open>created\<close>. When no position was open (and the quote is available at a nonzero price) it
  returns exactly one trade, the ledger holds exactly one trade more, and the pair's new
  position holds that trade; a take-profit or stop-loss percentage that is supplied and not
  zero sets the level to the quoted mid price times the percentage, whatever side of 1.0 it
  is on, and a level whose percentage is absent or zero stays unset.
\<close>

theorem open_1x_long_opens:
  "(get_position_by_trading_pair (portfolio (state pm)) pair \<noteq> None \<longrightarrow>
      (\<exists>e. fst (open_1x_long fmt pricing pm pair val tpp slp nt) = Inl e)
      \<and> (get_buy_price pricing (timestamp pm) pair val = Inr ps \<and> price ps \<noteq> 0 \<longrightarrow>
            fst (open_1x_long fmt pricing pm pair val tpp slp nt)
              = Inl (AssertionError (Some (''There was conflicting open position for pair: ''
                       @ fmt_pair fmt pair)))))
   \<and> (get_position_by_trading_pair (portfolio (state pm)) pair = None
        \<and> get_buy_price pricing (timestamp pm) pair val = Inr ps \<and> price ps \<noteq> 0 \<longrightarrow>
      (\<exists>trade p'. fst (open_1x_long fmt pricing pm pair val tpp slp nt) = Inr [trade]
         \<and> planned_quantity trade = val / price ps
         \<and> trade_count (state (snd (open_1x_long fmt pricing pm pair val tpp slp nt)))
             = trade_count (state pm) + 1
         \<and> get_position_by_trading_pair
               (portfolio (state (snd (open_1x_long fmt pricing pm pair val tpp slp nt)))) pair
             = Some p'
         \<and> trades p' = [trade]
         \<and> take_profit p' = (case tpp of None \<Rightarrow> None
               | Some x \<Rightarrow> if x = 0 then None else Some (mid_price ps * x))
         \<and> stop_loss p' = (case slp of None \<Rightarrow> None
               | Some x \<Rightarrow> if x = 0 then None else Some (mid_price ps * x))))"
  using open_1x_long_conflict(1) [where pm = pm and pair = pair and fmt = fmt
      and pricing = pricing and val = val and tpp = tpp and slp = slp and nt = nt]
    open_1x_long_conflict(2) [where pm = pm and pair = pair and fmt = fmt
      and pricing = pricing and val = val and tpp = tpp and slp = slp and nt = nt and ps = ps]
    open_1x_long_new [where pm = pm and pair = pair and fmt = fmt
      and pricing = pricing and val = val and tpp = tpp and slp = slp and nt = nt and ps = ps]
  by blast

lemma empty_lookup:
  "get_position_by_trading_pair (portfolio (state empty_manager)) pair = None"
  by (simp add: get_position_by_trading_pair_def empty_manager_def manager_with_simps)

theorem open_1x_long_opens_witness:
  "fst (open_1x_long sample_formats sample_pricing holding_manager cake_wbnb 8525 None None None)
     = Inl (AssertionError (Some ''There was conflicting open position for pair: Cake-WBNB''))
   \<and> (\<exists>trade p'.
        fst (open_1x_long sample_formats sample_pricing empty_manager cake_wbnb 8525
               (Some (1 / 2)) (Some 2) None) = Inr [trade]
        \<and> planned_quantity trade = 5
        \<and> get_position_by_trading_pair (portfolio (state (snd
             (open_1x_long sample_formats sample_pricing empty_manager cake_wbnb 8525
               (Some (1 / 2)) (Some 2) None)))) cake_wbnb = Some p'
        \<and> trades p' = [trade] \<and> take_profit p' = Some 850 \<and> stop_loss p' = Some 3400)"
proof -
  let ?ps = "\<lparr>price = 1705, mid_price = 1700, lp_fee = None, pair_fee = None\<rparr>"
  have shown: "fmt_pair sample_formats cake_wbnb = ''Cake-WBNB''"
    unfolding sample_formats_def by simp code_simp
  have held: "get_position_by_trading_pair (portfolio (state holding_manager)) cake_wbnb \<noteq> None"
    using holding_cake by simp
  have 1: "fst (open_1x_long sample_formats sample_pricing holding_manager cake_wbnb 8525
      None None None)
      = Inl (AssertionError (Some (''There was conflicting open position for pair: ''
               @ fmt_pair sample_formats cake_wbnb)))"
    using open_1x_long_opens [where pm = holding_manager and pair = cake_wbnb
        and pricing = sample_pricing and val = 8525 and ps = ?ps and fmt = sample_formats
        and tpp = None and slp = None and nt = None]
      held sample_quote
    by simp
  have 2: "\<exists>trade p'.
        fst (open_1x_long sample_formats sample_pricing empty_manager cake_wbnb 8525
               (Some (1 / 2)) (Some 2) None) = Inr [trade]
        \<and> planned_quantity trade = 5
        \<and> get_position_by_trading_pair (portfolio (state (snd
             (open_1x_long sample_formats sample_pricing empty_manager cake_wbnb 8525
               (Some (1 / 2)) (Some 2) None)))) cake_wbnb = Some p'
        \<and> trades p' = [trade] \<and> take_profit p' = Some 850 \<and> stop_loss p' = Some 3400"
    using open_1x_long_opens [where pm = empty_manager and pair = cake_wbnb
        and pricing = sample_pricing and val = 8525 and ps = ?ps and fmt = sample_formats
        and tpp = "Some (1 / 2)" and slp = "Some 2" and nt = None]
      empty_lookup sample_quote
    by auto
  from 1 2 show ?thesis
    by (simp add: shown)
qed

subsection \<open>Risk levels of an adjusted position\<close>

lemma take_profit_levels_stop_loss:
  "take_profit_levels (update_position pid (\<lambda>p. p\<lparr>stop_loss := v p\<rparr>) st) = take_profit_levels st"
proof -
  have "(position_id (if position_id x = pid then x\<lparr>stop_loss := v x\<rparr> else x),
         take_profit (if position_id x = pid then x\<lparr>stop_loss := v x\<rparr> else x))
        = (position_id x, take_profit x)" for x
    by simp
  then show ?thesis
    by (simp add: take_profit_levels_def update_position_def comp_def)
qed

lemma take_profit_levels_of_risk_levels:
  "take_profit_levels st = map (\<lambda>(i, s, t). (i, t)) (risk_levels st)"
  by (simp add: take_profit_levels_def risk_levels_def comp_def)

lemma adjust_position_trade_risk_levels:
  "adjust_position_trade fmt m pm pair delta weight ps = Inr ((pos, trade, created), st1)
     \<Longrightarrow> risk_levels st1 = risk_levels (state pm)
         \<or> risk_levels st1
              = risk_levels (state pm) @ [(next_position_id (portfolio (state pm)), None, None)]"
  by (auto simp: adjust_position_trade_def get_default_reserve_currency_def Let_def
      split: if_splits sum.splits option.splits dest: create_trade_risk_levels)

lemma adjust_position_trade_lookup:
  "adjust_position_trade fmt m pm pair delta weight ps = Inr ((pos, trade, created), st1)
     \<Longrightarrow> get_position_by_trading_pair (portfolio st1) pair = Some pos"
  by (auto simp: adjust_position_trade_def get_default_reserve_currency_def Let_def
      split: if_splits sum.splits option.splits dest: create_trade_lookup)

lemma levels_stop_invalid:
  "s \<ge> 1 \<Longrightarrow> adjust_position_levels fmt pid ps (Some s) tp st1
     = (Inl (AssertionError (Some (''Got stop loss '' @ fmt_number fmt s))), st1)"
  by (simp add: adjust_position_levels_def truthy_num_def)

lemma levels_take_invalid:
  "t \<noteq> 0 \<Longrightarrow> t \<le> 1 \<Longrightarrow>
     \<exists>e st2. adjust_position_levels fmt pid ps sl (Some t) st1 = (Inl e, st2)
       \<and> take_profit_levels st2 = take_profit_levels st1"
  by (auto simp: adjust_position_levels_def truthy_num_def Let_def take_profit_levels_stop_loss)

lemma levels_take_absent:
  "\<not> truthy_num tp \<Longrightarrow>
     take_profit_levels (snd (adjust_position_levels fmt pid ps sl tp st1)) = take_profit_levels st1"
  by (simp add: adjust_position_levels_def Let_def take_profit_levels_stop_loss)

lemma levels_stored:
  assumes "adjust_position_levels fmt pid ps sl tp st1 = (Inr (), st2)"
    and "get_position_by_trading_pair (portfolio st1) pair = Some pos"
    and "position_id pos = pid"
  shows "\<exists>p'. get_position_by_trading_pair (portfolio st2) pair = Some p'
      \<and> (\<forall>x. sl = Some x \<and> x \<noteq> 0 \<longrightarrow> stop_loss p' = Some (mid_price ps * x))
      \<and> (\<forall>x. tp = Some x \<and> x \<noteq> 0 \<longrightarrow> take_profit p' = Some (mid_price ps * x))"
  using assms
  by (cases sl; cases tp)
    (auto simp: adjust_position_levels_def truthy_num_def Let_def lookup_update_position
      split: if_splits)

lemma adjust_position_cases:
  obtains (early) e where
      "adjust_position fmt m pricing pm pair delta weight sl tp = (Inl e, pm)"
  | (traded) ps pos trade created st1 where
      "get_buy_price pricing (timestamp pm) pair delta = Inr ps"
      "adjust_position_trade fmt m pm pair delta weight ps = Inr ((pos, trade, created), st1)"
      "adjust_position fmt m pricing pm pair delta weight sl tp
         = (case adjust_position_levels fmt (position_id pos) ps sl tp st1 of
              (Inl e, st2) \<Rightarrow> (Inl e, pm\<lparr>state := st2\<rparr>)
            | (Inr u, st2) \<Rightarrow> (Inr [trade], pm\<lparr>state := st2\<rparr>))"
proof (cases "delta \<noteq> 0 \<and> weight \<le> 1 \<and> weight \<ge> 0")
  case False
  then have "\<exists>e. adjust_position fmt m pricing pm pair delta weight sl tp = (Inl e, pm)"
    by (auto simp: adjust_position_def)
  then show ?thesis using early by blast
next
  case args: True
  show ?thesis
  proof (cases "get_buy_price pricing (timestamp pm) pair delta")
    case (Inl e0)
    then have "\<exists>e. adjust_position fmt m pricing pm pair delta weight sl tp = (Inl e, pm)"
      using args by (cases e0) (simp_all add: adjust_position_def)
    then show ?thesis using early by blast
  next
    case quote: (Inr ps)
    show ?thesis
    proof (cases "adjust_position_trade fmt m pm pair delta weight ps")
      case (Inl e0)
      then have "adjust_position fmt m pricing pm pair delta weight sl tp = (Inl e0, pm)"
        using args quote by (simp add: adjust_position_def)
      then show ?thesis using early by blast
    next
      case (Inr x)
      obtain pos trade created st1 where x: "x = ((pos, trade, created), st1)"
        by (cases x) auto
      have "adjust_position fmt m pricing pm pair delta weight sl tp
         = (case adjust_position_levels fmt (position_id pos) ps sl tp st1 of
              (Inl e, st2) \<Rightarrow> (Inl e, pm\<lparr>state := st2\<rparr>)
            | (Inr u, st2) \<Rightarrow> (Inr [trade], pm\<lparr>state := st2\<rparr>))"
        using args quote Inr x by (simp add: adjust_position_def)
      then show ?thesis using traded quote Inr x by blast
    qed
  qed
qed

text \<open>
  Claim C9, as stated: every call of \<open>adjust_position\<close> that supplies a take-profit of at
  most 1 raises, and a call that raises for a risk level has stored no level. A take-profit
  of zero is falsy in \<open>if take_profit:\<close> and raises nothing; and with a stop loss of 0.9 and
  a take-profit of 0.5 the call raises on the take-profit after the stop loss 1530 has been
  written to the position.
\<close>

theorem adjust_position_levels_counterexample:
  "\<not> isl (fst (adjust_position sample_formats sample_methods sample_pricing holding_manager
      cake_wbnb 1705 1 None (Some 0)))
   \<and> isl (fst (adjust_position sample_formats sample_methods sample_pricing holding_manager
      cake_wbnb 1705 1 (Some (9 / 10)) (Some (1 / 2))))
   \<and> risk_levels (state holding_manager) = [(1, None, None)]
   \<and> risk_levels (state (snd (adjust_position sample_formats sample_methods sample_pricing
      holding_manager cake_wbnb 1705 1 (Some (9 / 10)) (Some (1 / 2))))) = [(1, Some 1530, None)]"
  by (simp add: adjust_position_def adjust_position_trade_def adjust_position_levels_def
      sample_pricing_def holding_manager_def manager_with_def cake_position_def
      get_default_reserve_currency_def create_trade_def get_position_by_trading_pair_def
      update_position_def truthy_num_def risk_levels_def Let_def)


text \<open>
  Claim C9, amended. A call of \<open>adjust_position\<close> that supplies a stop loss of at least 1
  raises, and no risk level of the ledger has changed by then (a position the call opened
  has none). A call that supplies a take-profit that is not zero and at most 1 raises, and
  no take-profit level has changed by then. When the call returns, each level that was
  supplied and is not zero is stored on the pair's position as the quoted mid price times the
  given fraction. A take-profit that is absent or zero stores no take-profit level.
\<close>

theorem adjust_position_risk_levels:
  "(1 \<le> s \<longrightarrow>
      (\<exists>e. fst (adjust_position fmt m pricing pm pair delta weight (Some s) tp) = Inl e)
      \<and> (risk_levels (state (snd (adjust_position fmt m pricing pm pair delta weight (Some s) tp)))
            = risk_levels (state pm)
          \<or> risk_levels (state (snd (adjust_position fmt m pricing pm pair delta weight (Some s) tp)))
            = risk_levels (state pm) @ [(next_position_id (portfolio (state pm)), None, None)]))
   \<and> (t \<noteq> 0 \<and> t \<le> 1 \<longrightarrow>
      (\<exists>e. fst (adjust_position fmt m pricing pm pair delta weight sl (Some t)) = Inl e)
      \<and> (take_profit_levels (state (snd (adjust_position fmt m pricing pm pair delta weight sl (Some t))))
            = take_profit_levels (state pm)
          \<or> take_profit_levels (state (snd (adjust_position fmt m pricing pm pair delta weight sl (Some t))))
            = take_profit_levels (state pm) @ [(next_position_id (portfolio (state pm)), None)]))
   \<and> (fst (adjust_position fmt m pricing pm pair delta weight sl tp) = Inr ts
        \<and> get_buy_price pricing (timestamp pm) pair delta = Inr ps \<longrightarrow>
      (\<exists>p'. get_position_by_trading_pair
               (portfolio (state (snd (adjust_position fmt m pricing pm pair delta weight sl tp))))
               pair = Some p'
         \<and> (\<forall>x. sl = Some x \<and> x \<noteq> 0 \<longrightarrow> stop_loss p' = Some (mid_price ps * x))
         \<and> (\<forall>x. tp = Some x \<and> x \<noteq> 0 \<longrightarrow> take_profit p' = Some (mid_price ps * x))))
   \<and> (tp = None \<or> tp = Some 0 \<longrightarrow>
      take_profit_levels (state (snd (adjust_position fmt m pricing pm pair delta weight sl tp)))
        = take_profit_levels (state pm)
      \<or> take_profit_levels (state (snd (adjust_position fmt m pricing pm pair delta weight sl tp)))
        = take_profit_levels (state pm) @ [(next_position_id (portfolio (state pm)), None)])"
proof -
  {
  assume s: "1 \<le> s"
  let ?r = "adjust_position fmt m pricing pm pair delta weight (Some s) tp"
  have "(\<exists>e. fst ?r = Inl e)
      \<and> (risk_levels (state (snd ?r)) = risk_levels (state pm)
          \<or> risk_levels (state (snd ?r))
            = risk_levels (state pm) @ [(next_position_id (portfolio (state pm)), None, None)])"
  proof (cases rule: adjust_position_cases [where fmt = fmt and m = m and pricing = pricing
        and pm = pm and pair = pair and delta = delta and weight = weight and sl = "Some s"
        and tp = tp])
    case (early e)
    then show ?thesis by simp
  next
    case (traded ps pos trade created st1)
    have "?r = (Inl (AssertionError (Some (''Got stop loss '' @ fmt_number fmt s))),
        pm\<lparr>state := st1\<rparr>)"
      using traded(3) levels_stop_invalid [OF s] by simp
    then show ?thesis
      using adjust_position_trade_risk_levels [OF traded(2)] by simp
  qed
  }
  note stop = this
  {
  assume t: "t \<noteq> 0 \<and> t \<le> 1"
  let ?r = "adjust_position fmt m pricing pm pair delta weight sl (Some t)"
  have "(\<exists>e. fst ?r = Inl e)
      \<and> (take_profit_levels (state (snd ?r)) = take_profit_levels (state pm)
          \<or> take_profit_levels (state (snd ?r))
            = take_profit_levels (state pm) @ [(next_position_id (portfolio (state pm)), None)])"
  proof (cases rule: adjust_position_cases [where fmt = fmt and m = m and pricing = pricing
        and pm = pm and pair = pair and delta = delta and weight = weight and sl = sl
        and tp = "Some t"])
    case (early e)
    then show ?thesis by simp
  next
    case (traded ps pos trade created st1)
    obtain e st2 where l: "adjust_position_levels fmt (position_id pos) ps sl (Some t) st1 = (Inl e, st2)"
      and k: "take_profit_levels st2 = take_profit_levels st1"
      using levels_take_invalid [of t fmt "position_id pos" ps sl st1] t by blast
    have r: "?r = (Inl e, pm\<lparr>state := st2\<rparr>)"
      using traded(3) l by simp
    have "take_profit_levels st1 = take_profit_levels (state pm)
        \<or> take_profit_levels st1
            = take_profit_levels (state pm) @ [(next_position_id (portfolio (state pm)), None)]"
      using adjust_position_trade_risk_levels [OF traded(2)]
      by (auto simp: take_profit_levels_of_risk_levels)
    then show ?thesis
      using r k by simp
  qed
  }
  note take = this
  {
  assume a: "fst (adjust_position fmt m pricing pm pair delta weight sl tp) = Inr ts
        \<and> get_buy_price pricing (timestamp pm) pair delta = Inr ps"
  let ?r = "adjust_position fmt m pricing pm pair delta weight sl tp"
  have "\<exists>p'. get_position_by_trading_pair (portfolio (state (snd ?r))) pair = Some p'
         \<and> (\<forall>x. sl = Some x \<and> x \<noteq> 0 \<longrightarrow> stop_loss p' = Some (mid_price ps * x))
         \<and> (\<forall>x. tp = Some x \<and> x \<noteq> 0 \<longrightarrow> take_profit p' = Some (mid_price ps * x))"
  proof (cases rule: adjust_position_cases [where fmt = fmt and m = m and pricing = pricing
        and pm = pm and pair = pair and delta = delta and weight = weight and sl = sl
        and tp = tp])
    case (early e)
    then show ?thesis using a by simp
  next
    case (traded ps' pos trade created st1)
    have ps: "ps' = ps" using a traded(1) by simp
    obtain res st2 where l: "adjust_position_levels fmt (position_id pos) ps sl tp st1 = (res, st2)"
      by (cases "adjust_position_levels fmt (position_id pos) ps sl tp st1")
    have "res = Inr ()" and r: "?r = (Inr [trade], pm\<lparr>state := st2\<rparr>)"
      using a traded(3) l ps by (cases res; simp)+
    then have "adjust_position_levels fmt (position_id pos) ps sl tp st1 = (Inr (), st2)"
      using l by simp
    from levels_stored [OF this adjust_position_trade_lookup [OF traded(2)] refl]
    show ?thesis using r by simp
  qed
  }
  note stored = this
  {
  assume z: "tp = None \<or> tp = Some 0"
  let ?r = "adjust_position fmt m pricing pm pair delta weight sl tp"
  have "take_profit_levels (state (snd ?r)) = take_profit_levels (state pm)
      \<or> take_profit_levels (state (snd ?r))
        = take_profit_levels (state pm) @ [(next_position_id (portfolio (state pm)), None)]"
  proof (cases rule: adjust_position_cases [where fmt = fmt and m = m and pricing = pricing
        and pm = pm and pair = pair and delta = delta and weight = weight and sl = sl
        and tp = tp])
    case (early e)
    then show ?thesis by simp
  next
    case (traded ps pos trade created st1)
    have "snd ?r = pm\<lparr>state := snd (adjust_position_levels fmt (position_id pos) ps sl tp st1)\<rparr>"
      using traded(3) by (auto split: prod.splits sum.splits)
    moreover have "\<not> truthy_num tp"
      using z by (auto simp: truthy_num_def)
    moreover have "take_profit_levels st1 = take_profit_levels (state pm)
        \<or> take_profit_levels st1
            = take_profit_levels (state pm) @ [(next_position_id (portfolio (state pm)), None)]"
      using adjust_position_trade_risk_levels [OF traded(2)]
      by (auto simp: take_profit_levels_of_risk_levels)
    ultimately show ?thesis
      by (simp add: levels_take_absent)
  qed
  }
  note absent = this
  from stop take stored absent show ?thesis
    by blast
qed


lemma holding_levels: "risk_levels (state holding_manager) = [(1, None, None)]"
  by (simp add: risk_levels_def holding_manager_def manager_with_simps cake_position_def)

theorem adjust_position_risk_levels_witness:
  "(\<exists>e. fst (adjust_position sample_formats sample_methods sample_pricing holding_manager
             cake_wbnb 1705 1 (Some 1) None) = Inl e)
   \<and> risk_levels (state (snd (adjust_position sample_formats sample_methods sample_pricing
        holding_manager cake_wbnb 1705 1 (Some 1) None))) \<in> {[(1, None, None)],
          [(1, None, None), (2, None, None)]}
   \<and> (\<exists>e. fst (adjust_position sample_formats sample_methods sample_pricing holding_manager
             cake_wbnb 1705 1 None (Some (1 / 2))) = Inl e)
   \<and> (\<exists>p'. get_position_by_trading_pair (portfolio (state (snd
          (adjust_position sample_formats sample_methods sample_pricing holding_manager
             cake_wbnb 1705 1 (Some (9 / 10)) (Some (11 / 10)))))) cake_wbnb = Some p'
        \<and> stop_loss p' = Some 1530 \<and> take_profit p' = Some 1870)"
proof -
  let ?ps = "\<lparr>price = 1705, mid_price = 1700, lp_fee = None, pair_fee = None\<rparr>"
  note stop = adjust_position_risk_levels [where fmt = sample_formats and m = sample_methods
      and pricing = sample_pricing and pm = holding_manager and pair = cake_wbnb
      and delta = 1705 and weight = 1 and s = 1 and tp = None and sl = None and t = "1 / 2"
      and ps = ?ps and ts = "[]"]
  note valid = adjust_position_risk_levels [where fmt = sample_formats and m = sample_methods
      and pricing = sample_pricing and pm = holding_manager and pair = cake_wbnb
      and delta = 1705 and weight = 1 and s = 1 and t = "1 / 2"
      and sl = "Some (9 / 10)" and tp = "Some (11 / 10)" and ps = ?ps]
  have ret: "\<not> isl (fst (adjust_position sample_formats sample_methods sample_pricing
      holding_manager cake_wbnb 1705 1 (Some (9 / 10)) (Some (11 / 10))))"
    by (simp add: adjust_position_def adjust_position_trade_def adjust_position_levels_def
      sample_pricing_def holding_manager_def manager_with_def cake_position_def
      get_default_reserve_currency_def create_trade_def get_position_by_trading_pair_def
      update_position_def truthy_num_def Let_def)
  then obtain ts where ts: "fst (adjust_position sample_formats sample_methods sample_pricing
      holding_manager cake_wbnb 1705 1 (Some (9 / 10)) (Some (11 / 10))) = Inr ts"
    by (cases "fst (adjust_position sample_formats sample_methods sample_pricing
      holding_manager cake_wbnb 1705 1 (Some (9 / 10)) (Some (11 / 10)))") auto
  have 1: "(\<exists>e. fst (adjust_position sample_formats sample_methods sample_pricing holding_manager
             cake_wbnb 1705 1 (Some 1) None) = Inl e)
      \<and> risk_levels (state (snd (adjust_position sample_formats sample_methods sample_pricing
        holding_manager cake_wbnb 1705 1 (Some 1) None))) \<in> {[(1, None, None)],
          [(1, None, None), (2, None, None)]}"
    using stop holding_levels by (auto simp: holding_manager_def manager_with_simps)
  have 2: "\<exists>e. fst (adjust_position sample_formats sample_methods sample_pricing holding_manager
             cake_wbnb 1705 1 None (Some (1 / 2))) = Inl e"
    using stop by simp
  have 3: "\<exists>p'. get_position_by_trading_pair (portfolio (state (snd
          (adjust_position sample_formats sample_methods sample_pricing holding_manager
             cake_wbnb 1705 1 (Some (9 / 10)) (Some (11 / 10)))))) cake_wbnb = Some p'
        \<and> stop_loss p' = Some 1530 \<and> take_profit p' = Some 1870"
  proof -
    from valid [where ts = ts] ts sample_quote obtain p' where
      p: "get_position_by_trading_pair (portfolio (state (snd
          (adjust_position sample_formats sample_methods sample_pricing holding_manager
             cake_wbnb 1705 1 (Some (9 / 10)) (Some (11 / 10)))))) cake_wbnb = Some p'"
      and sl: "\<forall>x. Some (9 / 10) = Some x \<and> x \<noteq> 0 \<longrightarrow> stop_loss p' = Some (mid_price ?ps * x)"
      and tp: "\<forall>x. Some (11 / 10) = Some x \<and> x \<noteq> 0 \<longrightarrow> take_profit p' = Some (mid_price ?ps * x)"
      by blast
    have "stop_loss p' = Some 1530"
      using sl [rule_format, of "9 / 10"] by simp
    moreover have "take_profit p' = Some 1870"
      using tp [rule_format, of "11 / 10"] by simp
    ultimately show ?thesis
      using p by blast
  qed
  from 1 2 3 show ?thesis
    by blast
qed

end
